theory Spec2Isabelle
  imports Complex_Main
begin

section \<open>Python built-ins the dashboard relies on\<close>

text \<open>
  The dashboard (\<^verbatim>\<open>src/DashBoard_V2.py\<close>) is a Qt window whose handlers mutate the
  fields of \<^verbatim>\<open>MainWindow\<close>. The handlers are modelled as functions from the window's
  state to the state they leave behind. An exception that leaves a handler is a value:
  \<open>Raised e s\<close> carries the exception and the state at the moment it was raised.
\<close>

datatype exn = IndexError string | ValueError string | OtherError string

definition exn_str :: "exn \<Rightarrow> string" where
  "exn_str e = (case e of IndexError m \<Rightarrow> m | ValueError m \<Rightarrow> m | OtherError m \<Rightarrow> m)"

datatype 'a outcome = Done 'a | Raised exn 'a

subsection \<open>\<^verbatim>\<open>str(i)\<close> and \<^verbatim>\<open>int(text)\<close>\<close>

definition digit_chars :: string where
  "digit_chars = ''0123456789''"

fun str_nat :: "nat \<Rightarrow> string" where
  "str_nat n = (if n < 10 then [digit_chars ! n]
                else str_nat (n div 10) @ [digit_chars ! (n mod 10)])"

declare str_nat.simps [simp del]

definition py_str :: "int \<Rightarrow> string" where
  "py_str i = (if i < 0 then CHR ''-'' # str_nat (nat (- i)) else str_nat (nat i))"

definition digit_val :: "char \<Rightarrow> nat option" where
  "digit_val c = map_of
     [(CHR ''0'', 0), (CHR ''1'', 1), (CHR ''2'', 2), (CHR ''3'', 3), (CHR ''4'', 4),
      (CHR ''5'', 5), (CHR ''6'', 6), (CHR ''7'', 7), (CHR ''8'', 8), (CHR ''9'', 9)] c"

text \<open>
  A \<open>char\<close> stands for a code point below 256. The characters \<^verbatim>\<open>int()\<close> strips from
  both ends of such a text are tab, line feed, vertical tab, form feed, carriage return
  and the space, and the two blanks beyond ASCII, next line (0x85) and no-break space
  (0xA0). The separators 0x1C to 0x1F are not stripped: \<^verbatim>\<open>int\<close> raises on them.
\<close>

definition is_space :: "char \<Rightarrow> bool" where
  "is_space c = (c \<in> set [CHR 0x09, CHR 0x0A, CHR 0x0B, CHR 0x0C, CHR 0x0D, CHR 0x20,
                            CHR 0x85, CHR 0xA0])"

definition strip :: "string \<Rightarrow> string" where
  "strip t = rev (dropWhile is_space (rev (dropWhile is_space t)))"

text \<open>
  The digits of a decimal literal: at least one digit, single underscores allowed between
  digits. The flag says that a digit has to come next (at the start and after an
  underscore).
\<close>

fun int_digits :: "bool \<Rightarrow> nat \<Rightarrow> string \<Rightarrow> nat option" where
  "int_digits need acc [] = (if need then None else Some acc)"
| "int_digits need acc (c # cs) =
     (case digit_val c of
        Some d \<Rightarrow> int_digits False (10 * acc + d) cs
      | None \<Rightarrow> if c = CHR ''_'' \<and> \<not> need then int_digits True acc cs else None)"

text \<open>
  \<^verbatim>\<open>int(text)\<close> on a text of code points below 256; \<open>None\<close> is \<^verbatim>\<open>ValueError\<close>.
  (The interpreter's configurable limit on the number of digits is not part of the model.)
\<close>

definition py_int :: "string \<Rightarrow> int option" where
  "py_int text =
     (case strip text of
        [] \<Rightarrow> None
      | c # cs \<Rightarrow>
          if c = CHR ''-'' then map_option (\<lambda>n. - int n) (int_digits True 0 cs)
          else if c = CHR ''+'' then map_option int (int_digits True 0 cs)
          else map_option int (int_digits True 0 (c # cs)))"

subsection \<open>Strings: \<^verbatim>\<open>lower\<close>, \<^verbatim>\<open>endswith\<close>, \<^verbatim>\<open>os.path.basename\<close>\<close>

definition lower_char :: "char \<Rightarrow> char" where
  "lower_char c = (case map_of (zip ''ABCDEFGHIJKLMNOPQRSTUVWXYZ'' ''abcdefghijklmnopqrstuvwxyz'') c of
                     Some l \<Rightarrow> l | None \<Rightarrow> c)"

definition lower :: "string \<Rightarrow> string" where
  "lower t = map lower_char t"

definition endswith :: "string \<Rightarrow> string \<Rightarrow> bool" where
  "endswith t suffix = (length suffix \<le> length t \<and> drop (length t - length suffix) t = suffix)"

definition basename :: "string \<Rightarrow> string" where
  "basename p = rev (takeWhile (\<lambda>c. c \<noteq> CHR ''/'') (rev p))"

section \<open>Numbers, arrays and tables\<close>

text \<open>
  A \<^verbatim>\<open>float64\<close> is a rational number (\<open>Fin 0\<close> is the positive zero), the negative
  zero, an infinity or NaN; the integers of \<^verbatim>\<open>np.arange\<close> are rationals too. The program
  does no arithmetic on them: it tests for NaN, formats with \<^verbatim>\<open>:.2f\<close> and hands them to
  the plotting library.
\<close>

datatype scalar = Fin rat | NegZero | PosInf | NegInf | NaN

definition isnan :: "scalar \<Rightarrow> bool" where
  "isnan v = (v = NaN)"

definition arange :: "nat \<Rightarrow> scalar list" where
  "arange n = map (\<lambda>i. Fin (of_nat i)) [0..<n]"

definition round_half_even :: "rat \<Rightarrow> int" where
  "round_half_even q =
     (let f = \<lfloor>q\<rfloor>; r = q - of_int f
      in if r < 1 / 2 then f else if 1 / 2 < r then f + 1 else if even f then f else f + 1)"

text \<open>
  \<^verbatim>\<open>f"{v:.2f}"\<close>: the exact value rounded to two decimals, ties to even, with the sign
  of the value also when it rounds to zero.
\<close>

definition fmt2f :: "scalar \<Rightarrow> string" where
  "fmt2f v =
     (case v of
        NaN \<Rightarrow> ''nan''
      | NegZero \<Rightarrow> ''-0.00''
      | PosInf \<Rightarrow> ''inf''
      | NegInf \<Rightarrow> ''-inf''
      | Fin q \<Rightarrow>
          (let n = nat (round_half_even (\<bar>q\<bar> * 100))
           in (if q < 0 then ''-'' else []) @ str_nat (n div 100) @ ''.'' @
              [digit_chars ! (n mod 100 div 10), digit_chars ! (n mod 10)]))"

text \<open>
  A two-dimensional array (\<^verbatim>\<open>DataFrame.values\<close> is always two-dimensional): its rows,
  and the number of columns, which an array with no row still has.
\<close>

record ndarray =
  ncols :: nat
  cells :: "scalar list list"

definition shape0 :: "ndarray \<Rightarrow> nat" where
  "shape0 d = length (cells d)"

definition shape1 :: "ndarray \<Rightarrow> nat" where
  "shape1 d = ncols d"

definition rectangular :: "ndarray \<Rightarrow> bool" where
  "rectangular d = list_all (\<lambda>r. length r = ncols d) (cells d)"

definition index_msg :: "int \<Rightarrow> nat \<Rightarrow> nat \<Rightarrow> string" where
  "index_msg i axis n = ''index '' @ py_str i @ '' is out of bounds for axis '' @ str_nat axis @
                        '' with size '' @ str_nat n"

text \<open>An index of Python and numpy: negative indices count from the end.\<close>

definition norm_index :: "int \<Rightarrow> nat \<Rightarrow> nat option" where
  "norm_index i n =
     (if 0 \<le> i \<and> i < int n then Some (nat i)
      else if - int n \<le> i \<and> i < 0 then Some (nat (i + int n))
      else None)"

definition getitem :: "scalar list \<Rightarrow> int \<Rightarrow> exn + scalar" where
  "getitem a i =
     (case norm_index i (length a) of
        Some j \<Rightarrow> Inr (a ! j)
      | None \<Rightarrow> Inl (IndexError (index_msg i 0 (length a))))"

text \<open>\<^verbatim>\<open>data[i, :]\<close> and \<^verbatim>\<open>data[:, j]\<close>.\<close>

definition get_row :: "ndarray \<Rightarrow> int \<Rightarrow> exn + scalar list" where
  "get_row d i =
     (case norm_index i (shape0 d) of
        Some j \<Rightarrow> Inr (cells d ! j)
      | None \<Rightarrow> Inl (IndexError (index_msg i 0 (shape0 d))))"

definition get_col :: "ndarray \<Rightarrow> int \<Rightarrow> exn + scalar list" where
  "get_col d j =
     (case norm_index j (shape1 d) of
        Some k \<Rightarrow> Inr (map (\<lambda>r. r ! k) (cells d))
      | None \<Rightarrow> Inl (IndexError (index_msg j 1 (shape1 d))))"

text \<open>
  A \<^verbatim>\<open>DataFrame\<close>: its columns in order, each with its name. The text widgets show
  \<^verbatim>\<open>df.to_string(index=False, float_format="%.2f")\<close>; that renderer belongs to pandas
  and is a parameter \<open>ts\<close> of every handler that calls it.
\<close>

type_synonym frame = "(string \<times> scalar list) list"

text \<open>
  \<^verbatim>\<open>pd.DataFrame({k1: a, k2: b})\<close>: a dict display keeps one entry per key, the
  last value given for it.
\<close>

definition frame_of_dict2 :: "string \<Rightarrow> scalar list \<Rightarrow> string \<Rightarrow> scalar list \<Rightarrow> frame" where
  "frame_of_dict2 k1 a k2 b = (if k1 = k2 then [(k1, b)] else [(k1, a), (k2, b)])"

section \<open>\<^verbatim>\<open>DataPlotter\<close>\<close>

record series_data =
  x_data :: "scalar list"
  y_data :: "scalar list"
  label :: string
  use_twinx :: bool

record line2d =
  ln_x :: "scalar list"
  ln_y :: "scalar list"
  ln_color :: string
  ln_label :: string
  ln_twinx :: bool

record heatmap =
  im_data :: ndarray
  im_extent :: "scalar list"
  im_cbar_label :: string

record axes =
  ax_lines :: "line2d list"
  ax_image :: "heatmap option"
  ax_title :: string
  ax_xlabel :: string
  ax_ylabel :: string
  ax_twin_ylabel :: "string option"

text \<open>
  The plotter: its axes (\<open>None\<close> after \<^verbatim>\<open>clear_plot\<close>) and the number of times
  \<^verbatim>\<open>canvas.draw()\<close> has run.
\<close>

record DataPlotter =
  ax :: "axes option"
  draw_count :: nat

definition new_axes :: axes where
  "new_axes = \<lparr>ax_lines = [], ax_image = None, ax_title = [], ax_xlabel = [], ax_ylabel = [],
               ax_twin_ylabel = None\<rparr>"

definition create_axes :: "DataPlotter \<Rightarrow> DataPlotter" where
  "create_axes p = p\<lparr>ax := Some new_axes\<rparr>"

definition clear_plot :: "DataPlotter \<Rightarrow> DataPlotter" where
  "clear_plot p = p\<lparr>ax := None, draw_count := draw_count p + 1\<rparr>"

definition colors :: "string list" where
  "colors = [''b'', ''g'', ''r'', ''c'', ''m'', ''y'', ''k'', ''purple'', ''orange'']"

definition shape_msg :: "nat \<Rightarrow> nat \<Rightarrow> string" where
  "shape_msg n m = ''x and y must have same first dimension, but have shapes ('' @ str_nat n @
                   '',) and ('' @ str_nat m @ '',)''"

text \<open>
  The loop of \<^verbatim>\<open>plot_line\<close> over \<^verbatim>\<open>enumerate(series_data_list)\<close>. The secondary axis
  is created at the first series that asks for it; \<^verbatim>\<open>plot\<close> raises when the two arrays
  differ in length.
\<close>

fun plot_series :: "nat \<Rightarrow> series_data list \<Rightarrow> axes \<Rightarrow> exn option \<times> axes" where
  "plot_series i [] a = (None, a)"
| "plot_series i (sd # rest) a =
     (let a1 = (if use_twinx sd \<and> ax_twin_ylabel a = None
                then a\<lparr>ax_twin_ylabel := Some ''Secondary Y-axis''\<rparr> else a)
      in if length (x_data sd) \<noteq> length (y_data sd)
         then (Some (ValueError (shape_msg (length (x_data sd)) (length (y_data sd)))), a1)
         else plot_series (Suc i) rest
                (a1\<lparr>ax_lines := ax_lines a1 @
                   [\<lparr>ln_x = x_data sd, ln_y = y_data sd,
                     ln_color = colors ! (i mod length colors),
                     ln_label = label sd, ln_twinx = use_twinx sd\<rparr>]\<rparr>))"

definition plot_line :: "DataPlotter \<Rightarrow> series_data list \<Rightarrow> string \<Rightarrow> string \<Rightarrow> string
    \<Rightarrow> DataPlotter outcome" where
  "plot_line p series_data_list title xlabel ylabel =
     (case plot_series 0 series_data_list new_axes of
        (Some e, a) \<Rightarrow> Raised e (p\<lparr>ax := Some a\<rparr>)
      | (None, a) \<Rightarrow>
          Done (p\<lparr>ax := Some (a\<lparr>ax_title := title, ax_xlabel := xlabel, ax_ylabel := ylabel\<rparr>),
                  draw_count := draw_count p + 1\<rparr>))"

text \<open>
  \<^verbatim>\<open>plot_image\<close>: the extent reads the first and the last coordinate of both vectors,
  which raises on an empty vector, after the axes were created.
\<close>

definition extent_of :: "scalar list \<Rightarrow> scalar list \<Rightarrow> exn + scalar list" where
  "extent_of x_coords y_coords =
     (case getitem x_coords 0 of
        Inl e \<Rightarrow> Inl e
      | Inr x0 \<Rightarrow>
         (case getitem x_coords (- 1) of
            Inl e \<Rightarrow> Inl e
          | Inr x1 \<Rightarrow>
             (case getitem y_coords 0 of
                Inl e \<Rightarrow> Inl e
              | Inr y0 \<Rightarrow>
                 (case getitem y_coords (- 1) of
                    Inl e \<Rightarrow> Inl e
                  | Inr y1 \<Rightarrow> Inr [x0, x1, y0, y1]))))"

definition plot_image :: "DataPlotter \<Rightarrow> ndarray \<Rightarrow> scalar list \<Rightarrow> scalar list \<Rightarrow> string
    \<Rightarrow> string \<Rightarrow> string \<Rightarrow> string \<Rightarrow> DataPlotter outcome" where
  "plot_image p data x_coords y_coords title xlabel ylabel cbar_label =
     (case extent_of x_coords y_coords of
        Inl e \<Rightarrow> Raised e (create_axes p)
      | Inr ext \<Rightarrow>
          Done (p\<lparr>ax := Some (new_axes\<lparr>ax_image := Some \<lparr>im_data = data, im_extent = ext,
                                                        im_cbar_label = cbar_label\<rparr>,
                                     ax_title := title, ax_xlabel := xlabel, ax_ylabel := ylabel\<rparr>),
                  draw_count := draw_count p + 1\<rparr>))"

section \<open>The 2D tab of \<^verbatim>\<open>MainWindow\<close>\<close>

datatype icon = Information | Warning | Critical

type_synonym message_box = "icon \<times> string \<times> string"

text \<open>
  The fields of \<^verbatim>\<open>MainWindow\<close> that the handlers of the 2D tab read and write. A line
  edit is the text it shows, a text display likewise; \<open>message_boxes\<close> lists the
  \<^verbatim>\<open>QMessageBox\<close> dialogs these handlers have shown, oldest first.

  Every programmatic \<^verbatim>\<open>setText\<close> on a cut-index field happens between a
  \<^verbatim>\<open>disconnect\<close> and a \<^verbatim>\<open>connect\<close> of that field's \<^verbatim>\<open>textChanged\<close> handler, so it
  is a plain write of the field and calls no handler.
\<close>

record window2d =
  data_2d_loaded :: "ndarray option"
  x_coords_2d :: "scalar list option"
  y_coords_2d :: "scalar list option"
  current_2d_file_path :: "string option"
  current_x_cut_idx :: int
  current_y_cut_idx :: int
  x_cut_index_input :: string
  y_cut_index_input :: string
  plot_2d_title_input :: string
  plot_2d_xaxis_input :: string
  plot_2d_yaxis_input :: string
  plot_2d_cbar_input :: string
  data_plotter_2d_main :: DataPlotter
  data_plotter_2d_x_cut :: DataPlotter
  data_plotter_2d_y_cut :: DataPlotter
  x_cut_data_display :: string
  y_cut_data_display :: string
  message_boxes :: "message_box list"

definition show_message :: "icon \<Rightarrow> string \<Rightarrow> string \<Rightarrow> window2d \<Rightarrow> window2d" where
  "show_message ic title text s = s\<lparr>message_boxes := message_boxes s @ [(ic, title, text)]\<rparr>"

text \<open>The state \<^verbatim>\<open>__init__\<close> and \<^verbatim>\<open>init_ui\<close> build.\<close>

definition fresh_plotter :: DataPlotter where
  "fresh_plotter = \<lparr>ax = None, draw_count = 0\<rparr>"

definition init_window2d :: window2d where
  "init_window2d =
     \<lparr>data_2d_loaded = None, x_coords_2d = None, y_coords_2d = None,
      current_2d_file_path = None,
      current_x_cut_idx = 0, current_y_cut_idx = 0,
      x_cut_index_input = py_str 0, y_cut_index_input = py_str 0,
      plot_2d_title_input = ''2D Image Plot'', plot_2d_xaxis_input = ''X-axis'',
      plot_2d_yaxis_input = ''Y-axis'', plot_2d_cbar_input = ''Intensity'',
      data_plotter_2d_main = fresh_plotter, data_plotter_2d_x_cut = fresh_plotter,
      data_plotter_2d_y_cut = fresh_plotter,
      x_cut_data_display = [], y_cut_data_display = [],
      message_boxes = []\<rparr>"

subsection \<open>\<^verbatim>\<open>update_2d_cuts\<close>\<close>

text \<open>
  Lines 1098 to 1120: the row \<^verbatim>\<open>data[current_y_cut_idx, :]\<close> is plotted against the x
  coordinates and listed in the X-cut display.
\<close>

definition show_x_cut :: "(frame \<Rightarrow> string) \<Rightarrow> ndarray \<Rightarrow> scalar list \<Rightarrow> scalar list
    \<Rightarrow> window2d \<Rightarrow> window2d outcome" where
  "show_x_cut ts d xs ys s =
     (case get_row d (current_y_cut_idx s) of
        Inl e \<Rightarrow> Raised e s
      | Inr x_cut_data_y \<Rightarrow>
         (case getitem ys (current_y_cut_idx s) of
            Inl e \<Rightarrow> Raised e s
          | Inr y_coord \<Rightarrow>
             (case plot_line (data_plotter_2d_x_cut s)
                     [\<lparr>x_data = xs, y_data = x_cut_data_y, label = ''X-Cut Data'',
                       use_twinx = False\<rparr>]
                     (''X-Cut at Y-coord '' @ fmt2f y_coord)
                     (plot_2d_xaxis_input s) (plot_2d_cbar_input s) of
                Raised e p \<Rightarrow> Raised e (s\<lparr>data_plotter_2d_x_cut := p\<rparr>)
              | Done p \<Rightarrow>
                  Done (s\<lparr>data_plotter_2d_x_cut := p,
                          x_cut_data_display :=
                            ''Y-Coordinate: '' @ fmt2f y_coord @ [CHR 0x0A] @
                            ts (frame_of_dict2 (plot_2d_xaxis_input s) xs
                                  (plot_2d_cbar_input s) x_cut_data_y)\<rparr>))))"

text \<open>
  Lines 1122 to 1144: the column \<^verbatim>\<open>data[:, current_x_cut_idx]\<close> is plotted against the
  y coordinates and listed in the Y-cut display.
\<close>

definition show_y_cut :: "(frame \<Rightarrow> string) \<Rightarrow> ndarray \<Rightarrow> scalar list \<Rightarrow> scalar list
    \<Rightarrow> window2d \<Rightarrow> window2d outcome" where
  "show_y_cut ts d xs ys s =
     (case get_col d (current_x_cut_idx s) of
        Inl e \<Rightarrow> Raised e s
      | Inr y_cut_data_x \<Rightarrow>
         (case getitem xs (current_x_cut_idx s) of
            Inl e \<Rightarrow> Raised e s
          | Inr x_coord \<Rightarrow>
             (case plot_line (data_plotter_2d_y_cut s)
                     [\<lparr>x_data = ys, y_data = y_cut_data_x, label = ''Y-Cut Data'',
                       use_twinx = False\<rparr>]
                     (''Y-Cut at X-coord '' @ fmt2f x_coord)
                     (plot_2d_yaxis_input s) (plot_2d_cbar_input s) of
                Raised e p \<Rightarrow> Raised e (s\<lparr>data_plotter_2d_y_cut := p\<rparr>)
              | Done p \<Rightarrow>
                  Done (s\<lparr>data_plotter_2d_y_cut := p,
                          y_cut_data_display :=
                            ''X-Coordinate: '' @ fmt2f x_coord @ [CHR 0x0A] @
                            ts (frame_of_dict2 (plot_2d_yaxis_input s) ys
                                  (plot_2d_cbar_input s) y_cut_data_x)\<rparr>))))"

definition update_2d_cuts :: "(frame \<Rightarrow> string) \<Rightarrow> window2d \<Rightarrow> window2d outcome" where
  "update_2d_cuts ts s =
     (case (data_2d_loaded s, x_coords_2d s, y_coords_2d s) of
        (Some d, Some xs, Some ys) \<Rightarrow>
          (let yi = max 0 (min (current_y_cut_idx s) (int (shape0 d) - 1));
               xi = max 0 (min (current_x_cut_idx s) (int (shape1 d) - 1));
               s1 = s\<lparr>current_y_cut_idx := yi, current_x_cut_idx := xi,
                      y_cut_index_input := py_str yi, x_cut_index_input := py_str xi\<rparr>
           in case show_x_cut ts d xs ys s1 of
                Raised e s2 \<Rightarrow> Raised e s2
              | Done s2 \<Rightarrow> show_y_cut ts d xs ys s2)
      | _ \<Rightarrow>
          Done (s\<lparr>data_plotter_2d_x_cut := clear_plot (data_plotter_2d_x_cut s),
                  data_plotter_2d_y_cut := clear_plot (data_plotter_2d_y_cut s),
                  x_cut_data_display := [], y_cut_data_display := [],
                  x_cut_index_input := ''0'', y_cut_index_input := ''0''\<rparr>))"

subsection \<open>\<^verbatim>\<open>navigate_2d_cut\<close>\<close>

definition navigate_2d_cut :: "(frame \<Rightarrow> string) \<Rightarrow> window2d \<Rightarrow> string \<Rightarrow> int
    \<Rightarrow> window2d outcome" where
  "navigate_2d_cut ts s cut_type direction =
     (case data_2d_loaded s of
        None \<Rightarrow> Done s
      | Some d \<Rightarrow>
          (let s1 = (if cut_type = ''x''
                     then s\<lparr>current_y_cut_idx :=
                              max 0 (min (int (shape0 d) - 1) (current_y_cut_idx s + direction))\<rparr>
                     else if cut_type = ''y''
                     then s\<lparr>current_x_cut_idx :=
                              max 0 (min (int (shape1 d) - 1) (current_x_cut_idx s + direction))\<rparr>
                     else s);
               s2 = s1\<lparr>y_cut_index_input := py_str (current_y_cut_idx s1),
                       x_cut_index_input := py_str (current_x_cut_idx s1)\<rparr>
           in update_2d_cuts ts s2))"

subsection \<open>\<^verbatim>\<open>set_2d_cut_indices\<close>\<close>

text \<open>The \<^verbatim>\<open>except ValueError\<close> branch, lines 1248 to 1262.\<close>

definition revert_invalid_input :: "window2d \<Rightarrow> string \<Rightarrow> window2d" where
  "revert_invalid_input s axis_type =
     show_message Warning ''Invalid Input'' ''Please enter a valid integer.''
       (if axis_type = ''y'' then s\<lparr>y_cut_index_input := py_str (current_y_cut_idx s)\<rparr>
        else if axis_type = ''x'' then s\<lparr>x_cut_index_input := py_str (current_x_cut_idx s)\<rparr>
        else s)"

text \<open>
  The call of \<^verbatim>\<open>update_2d_cuts\<close> stands inside the \<^verbatim>\<open>try\<close>: a \<^verbatim>\<open>ValueError\<close> it
  raises is handled like a text that is no integer, any other exception leaves the handler.
\<close>

definition update_in_try :: "(frame \<Rightarrow> string) \<Rightarrow> window2d \<Rightarrow> string \<Rightarrow> window2d outcome" where
  "update_in_try ts s axis_type =
     (case update_2d_cuts ts s of
        Raised (ValueError m) s' \<Rightarrow> Done (revert_invalid_input s' axis_type)
      | r \<Rightarrow> r)"

definition set_2d_cut_indices :: "(frame \<Rightarrow> string) \<Rightarrow> window2d \<Rightarrow> string \<Rightarrow> string
    \<Rightarrow> window2d outcome" where
  "set_2d_cut_indices ts s text axis_type =
     (case data_2d_loaded s of
        None \<Rightarrow> Done s
      | Some d \<Rightarrow>
          if text = [] then Done s
          else
            (case py_int text of
               None \<Rightarrow> Done (revert_invalid_input s axis_type)
             | Some new_index \<Rightarrow>
                 if axis_type = ''y'' then
                   (let max_idx = int (shape0 d) - 1 in
                    if 0 \<le> new_index \<and> new_index \<le> max_idx then
                      (if current_y_cut_idx s \<noteq> new_index
                       then update_in_try ts (s\<lparr>current_y_cut_idx := new_index\<rparr>) axis_type
                       else Done s)
                    else
                      Done (show_message Warning ''Invalid Y-Index''
                              (''Y-Index must be between 0 and '' @ py_str max_idx @ ''.'')
                              (s\<lparr>y_cut_index_input := py_str (current_y_cut_idx s)\<rparr>)))
                 else if axis_type = ''x'' then
                   (let max_idx = int (shape1 d) - 1 in
                    if 0 \<le> new_index \<and> new_index \<le> max_idx then
                      (if current_x_cut_idx s \<noteq> new_index
                       then update_in_try ts (s\<lparr>current_x_cut_idx := new_index\<rparr>) axis_type
                       else Done s)
                    else
                      Done (show_message Warning ''Invalid X-Index''
                              (''X-Index must be between 0 and '' @ py_str max_idx @ ''.'')
                              (s\<lparr>x_cut_index_input := py_str (current_x_cut_idx s)\<rparr>)))
                 else Done s))"

subsection \<open>\<^verbatim>\<open>_load_and_plot_2d\<close>\<close>

text \<open>
  Reading the file is pandas' work, so the two readings are arguments. \<open>primary\<close> is what
  lines 828 to 833 give (the matrix, the x coordinates taken from the header and the y
  coordinates taken from the first column) or the exception they raise; \<open>fallback\<close> is
  what \<^verbatim>\<open>pd.read_csv(file_path, header=None, sep=delimiter).values\<close> gives or raises.
\<close>

definition quoted :: "string \<Rightarrow> string" where
  "quoted t = [CHR 0x27] @ t @ [CHR 0x27]"

definition parse_2d :: "window2d \<Rightarrow> string \<Rightarrow> exn + (ndarray \<times> scalar list \<times> scalar list)
    \<Rightarrow> exn + ndarray \<Rightarrow> window2d outcome" where
  "parse_2d s file_path primary fallback =
     (case primary of
        Inr (d, xs, ys) \<Rightarrow>
          (let s1 = s\<lparr>x_coords_2d := Some xs, y_coords_2d := Some ys, data_2d_loaded := Some d\<rparr>
           in Done (if list_ex isnan xs \<or> list_ex isnan ys
                    then show_message Warning ''Coordinate Conversion Warning''
                           (''Some non-numeric values were found in X or Y coordinates of '' @
                            quoted (basename file_path) @
                            '' and converted to NaN. These might affect plotting accuracy.'') s1
                    else s1))
      | Inl parse_error \<Rightarrow>
          (let s1 = show_message Warning ''2D Data Format Warning''
                      (''Could not parse '' @ quoted (basename file_path) @
                       '' with first column as Y-axis and header as X-axis. Reason: '' @
                       exn_str parse_error @ ''. '' @ [CHR 0x0A, CHR 0x0A] @
                       ''Attempting fallback: loading as raw matrix with numerical indices.'') s
           in case fallback of
                Inl e \<Rightarrow> Raised e s1
              | Inr d \<Rightarrow>
                  Done (s1\<lparr>data_2d_loaded := Some d,
                           y_coords_2d := Some (arange (shape0 d)),
                           x_coords_2d := Some (arange (shape1 d))\<rparr>)))"

text \<open>
  Lines 859 to 901: the cut indices are reset, the heat map and the cuts are drawn. After
  \<open>parse_2d\<close> the matrix and both coordinate vectors are present; the two branches for an
  absent one are what Python does on \<^verbatim>\<open>None\<close>.
\<close>

definition show_loaded_2d :: "(frame \<Rightarrow> string) \<Rightarrow> window2d \<Rightarrow> string \<Rightarrow> window2d outcome" where
  "show_loaded_2d ts s file_path =
     (case data_2d_loaded s of
        None \<Rightarrow> Raised (OtherError (quoted ''NoneType'' @ '' object has no attribute '' @
                                     quoted ''ndim'')) s
      | Some d \<Rightarrow>
         (let s1 = s\<lparr>current_x_cut_idx := 0, current_y_cut_idx := 0,
                     x_cut_index_input := py_str 0, y_cut_index_input := py_str 0\<rparr>
          in case (x_coords_2d s1, y_coords_2d s1) of
               (Some xs, Some ys) \<Rightarrow>
                 (case plot_image (data_plotter_2d_main s1) d xs ys (basename file_path)
                         (plot_2d_xaxis_input s1) (plot_2d_yaxis_input s1)
                         (plot_2d_cbar_input s1) of
                    Raised e p \<Rightarrow> Raised e (s1\<lparr>data_plotter_2d_main := p\<rparr>)
                  | Done p \<Rightarrow> update_2d_cuts ts (s1\<lparr>data_plotter_2d_main := p\<rparr>))
             | _ \<Rightarrow>
                 Raised (OtherError (quoted ''NoneType'' @ '' object is not subscriptable''))
                   (s1\<lparr>data_plotter_2d_main := create_axes (data_plotter_2d_main s1)\<rparr>)))"

text \<open>The outer \<^verbatim>\<open>except Exception\<close>, lines 903 to 912.\<close>

definition load_failed_2d :: "window2d \<Rightarrow> string \<Rightarrow> exn \<Rightarrow> window2d" where
  "load_failed_2d s file_path e =
     (show_message Critical ''2D Data Load Error''
        (''Failed to load 2D data from '' @ quoted (basename file_path) @ '':'' @ [CHR 0x0A] @
         exn_str e) s)
       \<lparr>data_2d_loaded := None,
        data_plotter_2d_main := clear_plot (data_plotter_2d_main s),
        data_plotter_2d_x_cut := clear_plot (data_plotter_2d_x_cut s),
        data_plotter_2d_y_cut := clear_plot (data_plotter_2d_y_cut s),
        x_cut_data_display := [], y_cut_data_display := []\<rparr>"

definition load_and_plot_2d :: "(frame \<Rightarrow> string) \<Rightarrow> window2d \<Rightarrow> string
    \<Rightarrow> exn + (ndarray \<times> scalar list \<times> scalar list) \<Rightarrow> exn + ndarray \<Rightarrow> window2d outcome" where
  "load_and_plot_2d ts s file_path primary fallback =
     (let s0 = s\<lparr>current_2d_file_path := Some file_path,
                 data_plotter_2d_main := clear_plot (data_plotter_2d_main s),
                 data_plotter_2d_x_cut := clear_plot (data_plotter_2d_x_cut s),
                 data_plotter_2d_y_cut := clear_plot (data_plotter_2d_y_cut s),
                 x_cut_data_display := [], y_cut_data_display := []\<rparr>
      in if \<not> (endswith (lower file_path) ''.csv'' \<or> endswith (lower file_path) ''.txt'')
         then Done (show_message Warning ''Unsupported 2D File Type''
                      (''File '' @ quoted (basename file_path) @
                       '' is not a supported 2D type (.csv, .txt).'') s0)
         else
           (case parse_2d s0 file_path primary fallback of
              Raised e s1 \<Rightarrow> Done (load_failed_2d s1 file_path e)
            | Done s1 \<Rightarrow>
               (case show_loaded_2d ts s1 file_path of
                  Raised e s2 \<Rightarrow> Done (load_failed_2d s2 file_path e)
                | Done s2 \<Rightarrow> Done s2)))"

subsection \<open>\<^verbatim>\<open>select_root_folder\<close>\<close>

text \<open>
  The branch of \<^verbatim>\<open>select_root_folder\<close> for a folder chosen on the 2D tab, lines 706 to
  742 (the path display and the tree view are not part of the state): everything loaded
  is dropped, both cursors are reset and both fields rewritten.
\<close>

definition select_root_folder_2d :: "window2d \<Rightarrow> window2d" where
  "select_root_folder_2d s =
     s\<lparr>data_plotter_2d_main := clear_plot (data_plotter_2d_main s),
       data_plotter_2d_x_cut := clear_plot (data_plotter_2d_x_cut s),
       data_plotter_2d_y_cut := clear_plot (data_plotter_2d_y_cut s),
       data_2d_loaded := None, x_coords_2d := None, y_coords_2d := None,
       current_2d_file_path := None,
       x_cut_data_display := [], y_cut_data_display := [],
       current_x_cut_idx := 0, current_y_cut_idx := 0,
       x_cut_index_input := py_str 0, y_cut_index_input := py_str 0\<rparr>"

subsection \<open>Sequences of cut operations, and what they preserve\<close>

datatype cut_op = SetCut string string | Navigate string int | Recompute

fun run_op :: "(frame \<Rightarrow> string) \<Rightarrow> cut_op \<Rightarrow> window2d \<Rightarrow> window2d outcome" where
  "run_op ts (SetCut text axis_type) s = set_2d_cut_indices ts s text axis_type"
| "run_op ts (Navigate cut_type direction) s = navigate_2d_cut ts s cut_type direction"
| "run_op ts Recompute s = update_2d_cuts ts s"

fun run_ops :: "(frame \<Rightarrow> string) \<Rightarrow> cut_op list \<Rightarrow> window2d \<Rightarrow> window2d outcome" where
  "run_ops ts [] s = Done s"
| "run_ops ts (c # cs) s =
     (case run_op ts c s of Done s' \<Rightarrow> run_ops ts cs s' | Raised e s' \<Rightarrow> Raised e s')"

text \<open>
  A matrix as a successful load leaves it: rectangular, with at least one row and one
  column, and one coordinate for each column and each row.
\<close>

definition matrix_ready :: "window2d \<Rightarrow> bool" where
  "matrix_ready s =
     (case (data_2d_loaded s, x_coords_2d s, y_coords_2d s) of
        (Some d, Some xs, Some ys) \<Rightarrow>
          rectangular d \<and> 0 < shape0 d \<and> 0 < shape1 d \<and>
          length xs = shape1 d \<and> length ys = shape0 d
      | _ \<Rightarrow> False)"

definition cuts_in_bounds :: "window2d \<Rightarrow> ndarray \<Rightarrow> bool" where
  "cuts_in_bounds s d =
     (0 \<le> current_y_cut_idx s \<and> current_y_cut_idx s \<le> int (shape0 d) - 1 \<and>
      0 \<le> current_x_cut_idx s \<and> current_x_cut_idx s \<le> int (shape1 d) - 1)"

definition navigator_inv :: "window2d \<Rightarrow> bool" where
  "navigator_inv s =
     (case data_2d_loaded s of
        Some d \<Rightarrow> matrix_ready s \<and> cuts_in_bounds s d
      | None \<Rightarrow> x_cut_index_input s = ''0'' \<and> y_cut_index_input s = ''0'')"

text \<open>
  What the specification says a recompute shows for the cursors \<open>yi\<close> and \<open>xi\<close>: both
  fields rewritten, one line per cut with the other axis' coordinates as abscissa, the
  fixed coordinate in the title and at the head of the listing.
\<close>

definition one_line_axes :: "scalar list \<Rightarrow> scalar list \<Rightarrow> string \<Rightarrow> string \<Rightarrow> string
    \<Rightarrow> string \<Rightarrow> axes" where
  "one_line_axes xv yv lab title xl yl =
     \<lparr>ax_lines = [\<lparr>ln_x = xv, ln_y = yv, ln_color = ''b'', ln_label = lab, ln_twinx = False\<rparr>],
      ax_image = None, ax_title = title, ax_xlabel = xl, ax_ylabel = yl,
      ax_twin_ylabel = None\<rparr>"

definition slices_shown :: "(frame \<Rightarrow> string) \<Rightarrow> ndarray \<Rightarrow> scalar list \<Rightarrow> scalar list
    \<Rightarrow> int \<Rightarrow> int \<Rightarrow> window2d \<Rightarrow> window2d" where
  "slices_shown ts d xs ys yi xi s =
     s\<lparr>current_y_cut_idx := yi, current_x_cut_idx := xi,
       y_cut_index_input := py_str yi, x_cut_index_input := py_str xi,
       data_plotter_2d_x_cut :=
         \<lparr>ax = Some (one_line_axes xs (cells d ! nat yi) ''X-Cut Data''
                       (''X-Cut at Y-coord '' @ fmt2f (ys ! nat yi))
                       (plot_2d_xaxis_input s) (plot_2d_cbar_input s)),
          draw_count = draw_count (data_plotter_2d_x_cut s) + 1\<rparr>,
       x_cut_data_display :=
         ''Y-Coordinate: '' @ fmt2f (ys ! nat yi) @ [CHR 0x0A] @
         ts (frame_of_dict2 (plot_2d_xaxis_input s) xs (plot_2d_cbar_input s) (cells d ! nat yi)),
       data_plotter_2d_y_cut :=
         \<lparr>ax = Some (one_line_axes ys (map (\<lambda>r. r ! nat xi) (cells d)) ''Y-Cut Data''
                       (''Y-Cut at X-coord '' @ fmt2f (xs ! nat xi))
                       (plot_2d_yaxis_input s) (plot_2d_cbar_input s)),
          draw_count = draw_count (data_plotter_2d_y_cut s) + 1\<rparr>,
       y_cut_data_display :=
         ''X-Coordinate: '' @ fmt2f (xs ! nat xi) @ [CHR 0x0A] @
         ts (frame_of_dict2 (plot_2d_yaxis_input s) ys (plot_2d_cbar_input s)
               (map (\<lambda>r. r ! nat xi) (cells d)))\<rparr>"

text \<open>
  Example data, taken from the specification's own example: four rows and three columns,
  y coordinates 10, 20, 30, 40 and x coordinates 1, 2, 3. \<open>plain_table\<close> is a simple
  stand-in for pandas' table renderer, used where an example needs a concrete one.
\<close>

definition demo_matrix :: ndarray where
  "demo_matrix = \<lparr>ncols = 3, cells = [[Fin 1, Fin 2, Fin 3], [Fin 4, Fin 5, Fin 6],
                                      [Fin 7, Fin 8, Fin 9], [Fin 10, Fin 11, Fin 12]]\<rparr>"

definition demo_window :: window2d where
  "demo_window = init_window2d\<lparr>data_2d_loaded := Some demo_matrix,
                                x_coords_2d := Some [Fin 1, Fin 2, Fin 3],
                                y_coords_2d := Some [Fin 10, Fin 20, Fin 30, Fin 40]\<rparr>"

fun plain_table :: "frame \<Rightarrow> string" where
  "plain_table [] = []"
| "plain_table ((k, v) # rest) = k @ '':'' @ concat (map (\<lambda>x. CHR '' '' # fmt2f x) v) @
                                 [CHR 0x0A] @ plain_table rest"

text \<open>
  A call that leaves the navigator alone but for a field's text and the message boxes:
  same matrix, same cursors, no plot redrawn, no listing rewritten.
\<close>

definition cuts_untouched :: "window2d \<Rightarrow> window2d \<Rightarrow> bool" where
  "cuts_untouched s s' =
     (data_2d_loaded s' = data_2d_loaded s \<and>
      current_y_cut_idx s' = current_y_cut_idx s \<and> current_x_cut_idx s' = current_x_cut_idx s \<and>
      data_plotter_2d_x_cut s' = data_plotter_2d_x_cut s \<and>
      data_plotter_2d_y_cut s' = data_plotter_2d_y_cut s \<and>
      x_cut_data_display s' = x_cut_data_display s \<and>
      y_cut_data_display s' = y_cut_data_display s)"

text \<open>
  Three states of the example window: row 2 selected and the Y-index field just emptied
  by the user; the last row selected; and row 2 selected with the same text in the x-axis
  label and the colour-bar label.
\<close>

definition cleared_field_window :: window2d where
  "cleared_field_window = demo_window\<lparr>current_y_cut_idx := 2, y_cut_index_input := []\<rparr>"

definition last_row_window :: window2d where
  "last_row_window = demo_window\<lparr>current_y_cut_idx := 3, y_cut_index_input := ''3''\<rparr>"

definition clash_window :: window2d where
  "clash_window = demo_window\<lparr>current_y_cut_idx := 2, y_cut_index_input := ''2'',
                               plot_2d_xaxis_input := ''Value'', plot_2d_cbar_input := ''Value''\<rparr>"

section \<open>The 1D tab of \<^verbatim>\<open>MainWindow\<close>\<close>

text \<open>
  One row of series controls: the texts of its X and Y line edits and the state of its
  check box (the tuples of \<^verbatim>\<open>series_input_widgets\<close>, without the frame widget).
\<close>

record series_input =
  x_input :: string
  y_input :: string
  twinx_checkbox :: bool

text \<open>
  The fields of \<^verbatim>\<open>MainWindow\<close> that the handlers of the 1D tab read and write. The table
  \<^verbatim>\<open>current_1d_df\<close> is a \<open>frame\<close>: its columns in order, each with its name as
  \<^verbatim>\<open>str\<close> prints it and with its cells as \<^verbatim>\<open>pd.to_numeric(..., errors='coerce')\<close> reads
  them, which is the only way the tab reads a cell (NaN where the cell is no number).
  All columns of a table have the same length.
\<close>

record window1d =
  current_1d_df :: "frame option"
  current_1d_file_path :: "string option"
  series_input_widgets :: "series_input list"
  data_plotter_1d :: DataPlotter
  data_1d_display :: string
  plot_1d_title_input :: string
  plot_1d_xaxis_input :: string
  plot_1d_yaxis1_input :: string
  message_boxes_1d :: "message_box list"

definition show_message_1d :: "icon \<Rightarrow> string \<Rightarrow> string \<Rightarrow> window1d \<Rightarrow> window1d" where
  "show_message_1d ic title text s =
     s\<lparr>message_boxes_1d := message_boxes_1d s @ [(ic, title, text)]\<rparr>"

definition and_then :: "'a outcome \<Rightarrow> ('a \<Rightarrow> 'a outcome) \<Rightarrow> 'a outcome" where
  "and_then r f = (case r of Done s \<Rightarrow> f s | Raised e s \<Rightarrow> Raised e s)"

subsection \<open>\<^verbatim>\<open>update_1d_plot_from_column_selection\<close>\<close>

definition series_name :: "nat \<Rightarrow> string" where
  "series_name i = ''Series '' @ str_nat (i + 1)"

definition out_of_bounds_msg :: "nat \<Rightarrow> string \<Rightarrow> int \<Rightarrow> nat \<Rightarrow> message_box" where
  "out_of_bounds_msg i axis idx num_cols =
     (Warning, ''Column Index Out of Bounds'',
      series_name i @ '': '' @ axis @ '' Column Index '' @ py_str idx @
      '' is out of bounds. Max index is '' @ py_str (int num_cols - 1) @ ''.'')"

definition column_header :: "frame \<Rightarrow> int \<Rightarrow> string" where
  "column_header df idx =
     (if idx < int (length df) then fst (df ! nat idx) else ''Column '' @ py_str idx)"

text \<open>
  The body of the loop, lines 987 to 1042, for the series at position \<open>i\<close> (from 0):
  either the message box of the \<^verbatim>\<open>except\<close> branch or of the empty case, after which the
  loop continues, or the series to plot with the two columns offered to the listing.
\<close>

definition resolve_series :: "frame \<Rightarrow> nat \<Rightarrow> series_input
    \<Rightarrow> message_box + (series_data \<times> (string \<times> scalar list) \<times> (string \<times> scalar list))" where
  "resolve_series df i w =
     (case py_int (x_input w) of
        None \<Rightarrow> Inl (Warning, ''Invalid Column Index'',
                     series_name i @ '': Please enter valid integer numbers for column indices.'')
      | Some x_col_idx \<Rightarrow>
         (case py_int (y_input w) of
            None \<Rightarrow> Inl (Warning, ''Invalid Column Index'',
                         series_name i @ '': Please enter valid integer numbers for column indices.'')
          | Some y_col_idx \<Rightarrow>
              if \<not> (0 \<le> x_col_idx \<and> x_col_idx < int (length df))
              then Inl (out_of_bounds_msg i ''X'' x_col_idx (length df))
              else if \<not> (0 \<le> y_col_idx \<and> y_col_idx < int (length df))
              then Inl (out_of_bounds_msg i ''Y'' y_col_idx (length df))
              else
                (let valid = filter (\<lambda>(a, b). \<not> isnan a \<and> \<not> isnan b)
                               (zip (snd (df ! nat x_col_idx)) (snd (df ! nat y_col_idx)));
                     x_to_plot = map fst valid;
                     y_to_plot = map snd valid;
                     x_header = column_header df x_col_idx;
                     y_header = column_header df y_col_idx
                 in if length x_to_plot = 0
                    then Inl (Warning, ''No Plottable Data'',
                              series_name i @ '': No valid numeric data points found for the '' @
                              ''selected columns to plot.'')
                    else Inr (\<lparr>x_data = x_to_plot, y_data = y_to_plot,
                               label = ''('' @ x_header @ '' vs '' @ y_header @ '')'',
                               use_twinx = twinx_checkbox w\<rparr>,
                              (x_header, x_to_plot), (y_header, y_to_plot)))))"

text \<open>\<^verbatim>\<open>if key not in d: d[key] = value\<close> on a dictionary kept in insertion order.\<close>

definition set_if_absent :: "frame \<Rightarrow> string \<times> scalar list \<Rightarrow> frame" where
  "set_if_absent d kv = (if fst kv \<in> set (map fst d) then d else d @ [kv])"

fun series_loop :: "frame \<Rightarrow> nat \<Rightarrow> series_input list
    \<Rightarrow> series_data list \<times> frame \<times> message_box list
    \<Rightarrow> series_data list \<times> frame \<times> message_box list" where
  "series_loop df i [] acc = acc"
| "series_loop df i (w # ws) (series_to_plot, display_data_dict, shown) =
     (case resolve_series df i w of
        Inl m \<Rightarrow> series_loop df (Suc i) ws (series_to_plot, display_data_dict, shown @ [m])
      | Inr (sd, xcol, ycol) \<Rightarrow>
          series_loop df (Suc i) ws
            (series_to_plot @ [sd], set_if_absent (set_if_absent display_data_dict xcol) ycol,
             shown))"

text \<open>Lines 1054 to 1056: every column is padded with NaN to the longest one.\<close>

definition pad_columns :: "frame \<Rightarrow> frame" where
  "pad_columns d =
     (let max_len = foldr max (map (\<lambda>kv. length (snd kv)) d) 0
      in map (\<lambda>kv. (fst kv, snd kv @ replicate (max_len - length (snd kv)) NaN)) d)"

definition update_1d_plot_from_column_selection :: "(frame \<Rightarrow> string) \<Rightarrow> window1d
    \<Rightarrow> window1d outcome" where
  "update_1d_plot_from_column_selection ts s =
     (case current_1d_df s of
        None \<Rightarrow> Done (s\<lparr>data_plotter_1d := clear_plot (data_plotter_1d s), data_1d_display := []\<rparr>)
      | Some df \<Rightarrow>
          (case series_loop df 0 (series_input_widgets s) ([], [], []) of
             (series_to_plot, display_data_dict, shown) \<Rightarrow>
               (let s1 = s\<lparr>message_boxes_1d := message_boxes_1d s @ shown\<rparr>
                in if series_to_plot \<noteq> [] then
                     (case plot_line (data_plotter_1d s1) series_to_plot (plot_1d_title_input s1)
                             (plot_1d_xaxis_input s1) (plot_1d_yaxis1_input s1) of
                        Raised e p \<Rightarrow> Raised e (s1\<lparr>data_plotter_1d := p\<rparr>)
                      | Done p \<Rightarrow>
                          Done (s1\<lparr>data_plotter_1d := p,
                                  data_1d_display :=
                                    (if display_data_dict \<noteq> []
                                     then ts (pad_columns display_data_dict) else [])\<rparr>))
                   else
                     Done (show_message_1d Information ''No Plottable Series''
                             ''No valid series configured or found to plot.''
                             (s1\<lparr>data_plotter_1d := clear_plot (data_plotter_1d s1),
                                 data_1d_display := []\<rparr>)))))"

subsection \<open>\<^verbatim>\<open>add_plot_series_input\<close>, \<^verbatim>\<open>clear_all_1d_series_inputs\<close>, \<^verbatim>\<open>_load_and_plot_1d\<close>\<close>

definition add_plot_series_input :: "(frame \<Rightarrow> string) \<Rightarrow> window1d \<Rightarrow> int \<Rightarrow> int \<Rightarrow> bool
    \<Rightarrow> window1d outcome" where
  "add_plot_series_input ts s initial_x_idx initial_y_idx default_twinx =
     (let s1 = s\<lparr>series_input_widgets := series_input_widgets s @
                    [\<lparr>x_input = py_str initial_x_idx, y_input = py_str initial_y_idx,
                      twinx_checkbox = default_twinx\<rparr>]\<rparr>
      in if current_1d_df s1 \<noteq> None then update_1d_plot_from_column_selection ts s1
         else Done s1)"

definition clear_all_1d_series_inputs :: "window1d \<Rightarrow> window1d" where
  "clear_all_1d_series_inputs s = s\<lparr>series_input_widgets := []\<rparr>"

text \<open>\<^verbatim>\<open>df.empty\<close>: no column, or no row.\<close>

definition df_empty :: "frame \<Rightarrow> bool" where
  "df_empty df = (case df of [] \<Rightarrow> True | kv # _ \<Rightarrow> snd kv = [])"

text \<open>The \<^verbatim>\<open>except Exception\<close> of \<^verbatim>\<open>_load_and_plot_1d\<close>, lines 960 to 968.\<close>

definition load_failed_1d :: "window1d \<Rightarrow> string \<Rightarrow> exn \<Rightarrow> window1d" where
  "load_failed_1d s file_path e =
     (let s1 = show_message_1d Critical ''1D Data Load Error''
                 (''Failed to load 1D data from '' @ quoted (basename file_path) @ '':'' @
                  [CHR 0x0A] @ exn_str e) s;
          s2 = clear_all_1d_series_inputs
                 (s1\<lparr>data_plotter_1d := clear_plot (data_plotter_1d s1),
                     current_1d_df := None, data_1d_display := []\<rparr>)
      in s2\<lparr>series_input_widgets := series_input_widgets s2 @
                [\<lparr>x_input = py_str 0, y_input = py_str 0, twinx_checkbox = False\<rparr>]\<rparr>)"

text \<open>Lines 939 to 957: the default series rows for the table just stored, and the plot.\<close>

definition default_series_1d :: "(frame \<Rightarrow> string) \<Rightarrow> window1d \<Rightarrow> frame \<Rightarrow> window1d outcome" where
  "default_series_1d ts s df =
     and_then
       (and_then
          (and_then
             (if 2 \<le> length df then add_plot_series_input ts (clear_all_1d_series_inputs s) 0 1 False
              else Done (clear_all_1d_series_inputs s))
             (\<lambda>s1. if 4 \<le> length df then add_plot_series_input ts s1 0 3 True else Done s1))
          (\<lambda>s2. if series_input_widgets s2 = [] \<and> 0 < length df
                 then add_plot_series_input ts s2 0 0 False
                 else if series_input_widgets s2 = []
                 then add_plot_series_input ts s2 0 0 False
                 else Done s2))
       (update_1d_plot_from_column_selection ts)"

text \<open>
  \<open>read\<close> is what the two attempts of \<^verbatim>\<open>pd.read_csv\<close> (with a header, then without)
  deliver: the table, or the exception of the second attempt.
\<close>

definition load_and_plot_1d :: "(frame \<Rightarrow> string) \<Rightarrow> window1d \<Rightarrow> string \<Rightarrow> exn + frame
    \<Rightarrow> window1d outcome" where
  "load_and_plot_1d ts s file_path read =
     (let s0 = s\<lparr>current_1d_file_path := Some file_path,
                 data_plotter_1d := clear_plot (data_plotter_1d s),
                 data_1d_display := [], current_1d_df := None\<rparr>
      in case read of
           Inl e \<Rightarrow> Done (load_failed_1d s0 file_path e)
         | Inr df \<Rightarrow>
             if df_empty df
             then Done (show_message_1d Warning ''Empty 1D Data''
                          (''File '' @ quoted (basename file_path) @
                           '' is empty or contains no valid data.'') s0)
             else
               (case default_series_1d ts (s0\<lparr>current_1d_df := Some df\<rparr>) df of
                  Raised e s1 \<Rightarrow> Done (load_failed_1d s1 file_path e)
                | Done s1 \<Rightarrow> Done s1))"

text \<open>
  The specification's reading of a recompute: a series row is plottable when both texts
  are integers, both lie in \<open>[0, columnCount)\<close> and some row of the table is numeric in
  both columns; its series holds exactly those rows.
\<close>

definition numeric_rows :: "frame \<Rightarrow> int \<Rightarrow> int \<Rightarrow> (scalar \<times> scalar) list" where
  "numeric_rows df x y =
     filter (\<lambda>(a, b). \<not> isnan a \<and> \<not> isnan b) (zip (snd (df ! nat x)) (snd (df ! nat y)))"

definition plottable :: "frame \<Rightarrow> series_input \<Rightarrow> bool" where
  "plottable df w =
     (case (py_int (x_input w), py_int (y_input w)) of
        (Some x, Some y) \<Rightarrow>
          0 \<le> x \<and> x < int (length df) \<and> 0 \<le> y \<and> y < int (length df) \<and> numeric_rows df x y \<noteq> []
      | _ \<Rightarrow> False)"

definition series_of :: "frame \<Rightarrow> series_input \<Rightarrow> series_data" where
  "series_of df w =
     (case (py_int (x_input w), py_int (y_input w)) of
        (Some x, Some y) \<Rightarrow>
          \<lparr>x_data = map fst (numeric_rows df x y), y_data = map snd (numeric_rows df x y),
           label = ''('' @ fst (df ! nat x) @ '' vs '' @ fst (df ! nat y) @ '')'',
           use_twinx = twinx_checkbox w\<rparr>
      | _ \<Rightarrow> \<lparr>x_data = [], y_data = [], label = [], use_twinx = False\<rparr>)"

definition line_of :: "nat \<Rightarrow> series_data \<Rightarrow> line2d" where
  "line_of k sd = \<lparr>ln_x = x_data sd, ln_y = y_data sd, ln_color = colors ! (k mod length colors),
                   ln_label = label sd, ln_twinx = use_twinx sd\<rparr>"

text \<open>The message boxes of the rows that are skipped, in order.\<close>

fun skip_reports :: "frame \<Rightarrow> nat \<Rightarrow> series_input list \<Rightarrow> message_box list" where
  "skip_reports df i [] = []"
| "skip_reports df i (w # ws) =
     (case resolve_series df i w of Inl m \<Rightarrow> [m] | Inr r \<Rightarrow> []) @ skip_reports df (Suc i) ws"

text \<open>The box shown when no series is left to plot (line 1064).\<close>

definition no_series_msg :: message_box where
  "no_series_msg = (Information, ''No Plottable Series'',
                    ''No valid series configured or found to plot.'')"

text \<open>The 1D tab as \<^verbatim>\<open>__init__\<close> and \<^verbatim>\<open>init_ui\<close> build it, with its one default row.\<close>

definition init_window1d :: window1d where
  "init_window1d =
     \<lparr>current_1d_df = None, current_1d_file_path = None,
      series_input_widgets = [\<lparr>x_input = py_str 0, y_input = py_str 1, twinx_checkbox = False\<rparr>],
      data_plotter_1d = fresh_plotter, data_1d_display = [],
      plot_1d_title_input = ''1D Line Plot'', plot_1d_xaxis_input = ''X-axis'',
      plot_1d_yaxis1_input = ''Y-axis'', message_boxes_1d = []\<rparr>"

text \<open>
  An example table of three columns, the last one without a number, and a window on it
  with five series rows: a Y index equal to the column count, a good row, an X text that
  is no integer, a row whose Y column has no number, and another good row.
\<close>

definition demo_table :: frame where
  "demo_table = [(''t'', [Fin 0, Fin 1, Fin 2]), (''v'', [Fin 5, NaN, Fin 7]),
                 (''note'', [NaN, NaN, NaN])]"

definition mixed_series_window :: window1d where
  "mixed_series_window =
     init_window1d\<lparr>current_1d_df := Some demo_table,
       series_input_widgets :=
         [\<lparr>x_input = ''0'', y_input = ''3'', twinx_checkbox = False\<rparr>,
          \<lparr>x_input = ''0'', y_input = ''1'', twinx_checkbox = False\<rparr>,
          \<lparr>x_input = ''x'', y_input = ''1'', twinx_checkbox = False\<rparr>,
          \<lparr>x_input = ''0'', y_input = ''2'', twinx_checkbox = True\<rparr>,
          \<lparr>x_input = ''1'', y_input = ''0'', twinx_checkbox = True\<rparr>]\<rparr>"

text \<open>The label and the colour of every line a recompute has drawn.\<close>

definition plotted :: "window1d outcome \<Rightarrow> (string \<times> string) list" where
  "plotted r =
     (case r of
        Done s \<Rightarrow> (case ax (data_plotter_1d s) of
                     Some a \<Rightarrow> map (\<lambda>l. (ln_label l, ln_color l)) (ax_lines a)
                   | None \<Rightarrow> [])
      | Raised e s \<Rightarrow> [])"

text \<open>
  A table as pandas reads a file that holds a header line and nothing else: two columns,
  no row. \<open>rows_after\<close> gives the series rows of the state a handler leaves.
\<close>

definition header_only_table :: frame where
  "header_only_table = [(''t'', []), (''v'', [])]"

definition rows_after :: "window1d outcome \<Rightarrow> series_input list" where
  "rows_after r = (case r of Done s \<Rightarrow> series_input_widgets s | Raised e s \<Rightarrow> series_input_widgets s)"

section \<open>Properties of the 2D tab\<close>

subsection \<open>A recompute on a loaded matrix, and the invariant\<close>

lemma plot_line_single:
  "length xv = length yv \<Longrightarrow>
   plot_line p [\<lparr>x_data = xv, y_data = yv, label = lab, use_twinx = False\<rparr>] t xl yl =
     Done (p\<lparr>ax := Some (one_line_axes xv yv lab t xl yl), draw_count := draw_count p + 1\<rparr>)"
  by (simp add: plot_line_def new_axes_def one_line_axes_def colors_def)

lemma norm_index_in: "0 \<le> i \<Longrightarrow> i < int n \<Longrightarrow> norm_index i n = Some (nat i)"
  by (simp add: norm_index_def)

lemma row_length: "rectangular d \<Longrightarrow> j < shape0 d \<Longrightarrow> length (cells d ! j) = shape1 d"
  by (simp add: rectangular_def shape0_def shape1_def list_all_length)

lemma show_x_cut_ready:
  assumes "rectangular d" "length xs = shape1 d" "length ys = shape0 d"
    and "0 \<le> current_y_cut_idx s" "current_y_cut_idx s < int (shape0 d)"
  shows "show_x_cut ts d xs ys s =
     Done (s\<lparr>data_plotter_2d_x_cut :=
              (data_plotter_2d_x_cut s)\<lparr>ax := Some (one_line_axes xs (cells d ! nat (current_y_cut_idx s)) ''X-Cut Data''
                       (''X-Cut at Y-coord '' @ fmt2f (ys ! nat (current_y_cut_idx s)))
                       (plot_2d_xaxis_input s) (plot_2d_cbar_input s)),
                draw_count := draw_count (data_plotter_2d_x_cut s) + 1\<rparr>,
             x_cut_data_display :=
               ''Y-Coordinate: '' @ fmt2f (ys ! nat (current_y_cut_idx s)) @ [CHR 0x0A] @
               ts (frame_of_dict2 (plot_2d_xaxis_input s) xs (plot_2d_cbar_input s)
                     (cells d ! nat (current_y_cut_idx s)))\<rparr>)"
proof -
  have len: "length xs = length (cells d ! nat (current_y_cut_idx s))"
    using assms by (simp add: row_length)
  show ?thesis
    using assms
    by (simp add: show_x_cut_def get_row_def getitem_def norm_index_in plot_line_single [OF len])
qed

lemma show_y_cut_ready:
  assumes "rectangular d" "length xs = shape1 d" "length ys = shape0 d"
    and "0 \<le> current_x_cut_idx s" "current_x_cut_idx s < int (shape1 d)"
  shows "show_y_cut ts d xs ys s =
     Done (s\<lparr>data_plotter_2d_y_cut :=
              (data_plotter_2d_y_cut s)\<lparr>ax := Some (one_line_axes ys (map (\<lambda>r. r ! nat (current_x_cut_idx s)) (cells d)) ''Y-Cut Data''
                       (''Y-Cut at X-coord '' @ fmt2f (xs ! nat (current_x_cut_idx s)))
                       (plot_2d_yaxis_input s) (plot_2d_cbar_input s)),
                draw_count := draw_count (data_plotter_2d_y_cut s) + 1\<rparr>,
             y_cut_data_display :=
               ''X-Coordinate: '' @ fmt2f (xs ! nat (current_x_cut_idx s)) @ [CHR 0x0A] @
               ts (frame_of_dict2 (plot_2d_yaxis_input s) ys (plot_2d_cbar_input s)
                     (map (\<lambda>r. r ! nat (current_x_cut_idx s)) (cells d)))\<rparr>)"
proof -
  have len: "length ys = length (map (\<lambda>r. r ! nat (current_x_cut_idx s)) (cells d))"
    using assms by (simp add: shape0_def)
  show ?thesis
    using assms
    by (simp add: show_y_cut_def get_col_def getitem_def norm_index_in plot_line_single [OF len])
qed

lemma update_2d_cuts_ready:
  assumes "data_2d_loaded s = Some d" "x_coords_2d s = Some xs" "y_coords_2d s = Some ys"
    and "rectangular d" "0 < shape0 d" "0 < shape1 d"
    and "length xs = shape1 d" "length ys = shape0 d"
  shows "update_2d_cuts ts s =
     Done (slices_shown ts d xs ys
             (max 0 (min (current_y_cut_idx s) (int (shape0 d) - 1)))
             (max 0 (min (current_x_cut_idx s) (int (shape1 d) - 1))) s)"
proof -
  define yi where "yi = max 0 (min (current_y_cut_idx s) (int (shape0 d) - 1))"
  define xi where "xi = max 0 (min (current_x_cut_idx s) (int (shape1 d) - 1))"
  define s1 where "s1 = s\<lparr>current_y_cut_idx := yi, current_x_cut_idx := xi,
                      y_cut_index_input := py_str yi, x_cut_index_input := py_str xi\<rparr>"
  have yb: "0 \<le> yi" "yi < int (shape0 d)" using assms by (auto simp: yi_def)
  have xb: "0 \<le> xi" "xi < int (shape1 d)" using assms by (auto simp: xi_def)
  have u: "update_2d_cuts ts s =
      (case show_x_cut ts d xs ys s1 of Raised e s2 \<Rightarrow> Raised e s2
       | Done s2 \<Rightarrow> show_y_cut ts d xs ys s2)"
    using assms(1-3) by (simp add: update_2d_cuts_def Let_def yi_def xi_def s1_def)
  have x: "show_x_cut ts d xs ys s1 = Done (s1\<lparr>data_plotter_2d_x_cut :=
              (data_plotter_2d_x_cut s1)\<lparr>ax := Some (one_line_axes xs (cells d ! nat (current_y_cut_idx s1)) ''X-Cut Data''
                       (''X-Cut at Y-coord '' @ fmt2f (ys ! nat (current_y_cut_idx s1)))
                       (plot_2d_xaxis_input s1) (plot_2d_cbar_input s1)),
                draw_count := draw_count (data_plotter_2d_x_cut s1) + 1\<rparr>,
             x_cut_data_display :=
               ''Y-Coordinate: '' @ fmt2f (ys ! nat (current_y_cut_idx s1)) @ [CHR 0x0A] @
               ts (frame_of_dict2 (plot_2d_xaxis_input s1) xs (plot_2d_cbar_input s1)
                     (cells d ! nat (current_y_cut_idx s1)))\<rparr>)"
    by (rule show_x_cut_ready) (use assms yb in \<open>simp_all add: s1_def\<close>)
  show ?thesis
    unfolding u x
    apply simp
    apply (subst show_y_cut_ready)
    using assms xb apply (simp_all add: s1_def)
    apply (simp add: slices_shown_def yi_def xi_def)
    done
qed


lemma matrix_readyE:
  assumes "matrix_ready s"
  obtains d xs ys where "data_2d_loaded s = Some d" "x_coords_2d s = Some xs"
    "y_coords_2d s = Some ys" "rectangular d" "0 < shape0 d" "0 < shape1 d"
    "length xs = shape1 d" "length ys = shape0 d"
  using assms by (auto simp: matrix_ready_def split: option.splits)

lemma update_2d_cuts_matrix:
  assumes "matrix_ready s" "data_2d_loaded s = Some d"
  shows "\<exists>s'. update_2d_cuts ts s = Done s' \<and> matrix_ready s' \<and> data_2d_loaded s' = Some d \<and>
           cuts_in_bounds s' d \<and>
           current_y_cut_idx s' = max 0 (min (current_y_cut_idx s) (int (shape0 d) - 1)) \<and>
           current_x_cut_idx s' = max 0 (min (current_x_cut_idx s) (int (shape1 d) - 1)) \<and>
           y_cut_index_input s' = py_str (current_y_cut_idx s') \<and>
           x_cut_index_input s' = py_str (current_x_cut_idx s') \<and>
           draw_count (data_plotter_2d_x_cut s') = draw_count (data_plotter_2d_x_cut s) + 1 \<and>
           draw_count (data_plotter_2d_y_cut s') = draw_count (data_plotter_2d_y_cut s) + 1 \<and>
           message_boxes s' = message_boxes s"
proof -
  from assms obtain xs ys where r: "x_coords_2d s = Some xs"
    "y_coords_2d s = Some ys" "rectangular d" "0 < shape0 d" "0 < shape1 d"
    "length xs = shape1 d" "length ys = shape0 d"
    by (auto elim: matrix_readyE)
  have u: "update_2d_cuts ts s =
     Done (slices_shown ts d xs ys
             (max 0 (min (current_y_cut_idx s) (int (shape0 d) - 1)))
             (max 0 (min (current_x_cut_idx s) (int (shape1 d) - 1))) s)"
    using assms(2) r by (rule update_2d_cuts_ready)
  show ?thesis
    unfolding u using assms(2) r
    by (auto simp: slices_shown_def matrix_ready_def cuts_in_bounds_def)
qed

lemma update_2d_cuts_absent:
  assumes "data_2d_loaded s = None"
  shows "\<exists>s'. update_2d_cuts ts s = Done s' \<and> data_2d_loaded s' = None \<and>
           x_cut_index_input s' = ''0'' \<and> y_cut_index_input s' = ''0'' \<and>
           ax (data_plotter_2d_x_cut s') = None \<and> ax (data_plotter_2d_y_cut s') = None \<and>
           x_cut_data_display s' = [] \<and> y_cut_data_display s' = [] \<and>
           message_boxes s' = message_boxes s"
  using assms by (simp add: update_2d_cuts_def clear_plot_def)

lemma update_2d_cuts_inv:
  assumes "navigator_inv s"
  shows "\<exists>s'. update_2d_cuts ts s = Done s' \<and> navigator_inv s' \<and>
           data_2d_loaded s' = data_2d_loaded s"
proof (cases "data_2d_loaded s")
  case None
  with update_2d_cuts_absent [OF None, of ts] show ?thesis
    by (auto simp: navigator_inv_def)
next
  case (Some d)
  with assms have "matrix_ready s" by (simp add: navigator_inv_def)
  from update_2d_cuts_matrix [OF this Some, of ts] Some show ?thesis
    by (auto simp: navigator_inv_def)
qed

lemma navigate_2d_cut_inv:
  assumes "navigator_inv s"
  shows "\<exists>s'. navigate_2d_cut ts s cut_type direction = Done s' \<and> navigator_inv s' \<and>
           data_2d_loaded s' = data_2d_loaded s"
proof (cases "data_2d_loaded s")
  case None
  with assms show ?thesis by (simp add: navigate_2d_cut_def)
next
  case (Some d)
  define s1 where "s1 = (if cut_type = ''x''
                     then s\<lparr>current_y_cut_idx :=
                              max 0 (min (int (shape0 d) - 1) (current_y_cut_idx s + direction))\<rparr>
                     else if cut_type = ''y''
                     then s\<lparr>current_x_cut_idx :=
                              max 0 (min (int (shape1 d) - 1) (current_x_cut_idx s + direction))\<rparr>
                     else s)"
  define s2 where "s2 = s1\<lparr>y_cut_index_input := py_str (current_y_cut_idx s1),
                       x_cut_index_input := py_str (current_x_cut_idx s1)\<rparr>"
  have n: "navigate_2d_cut ts s cut_type direction = update_2d_cuts ts s2"
    using Some by (simp add: navigate_2d_cut_def Let_def s1_def s2_def)
  from assms Some have "matrix_ready s" by (simp add: navigator_inv_def)
  then have m: "matrix_ready s2" and d2: "data_2d_loaded s2 = Some d"
    using Some by (simp_all add: matrix_ready_def s1_def s2_def)
  from update_2d_cuts_matrix [OF m d2, of ts] Some show ?thesis
    unfolding n by (auto simp: navigator_inv_def)
qed

lemma revert_invalid_input_fields:
  "data_2d_loaded (revert_invalid_input s a) = data_2d_loaded s"
  "x_coords_2d (revert_invalid_input s a) = x_coords_2d s"
  "y_coords_2d (revert_invalid_input s a) = y_coords_2d s"
  "current_x_cut_idx (revert_invalid_input s a) = current_x_cut_idx s"
  "current_y_cut_idx (revert_invalid_input s a) = current_y_cut_idx s"
  "message_boxes (revert_invalid_input s a) =
     message_boxes s @ [(Warning, ''Invalid Input'', ''Please enter a valid integer.'')]"
  "data_plotter_2d_x_cut (revert_invalid_input s a) = data_plotter_2d_x_cut s"
  "data_plotter_2d_y_cut (revert_invalid_input s a) = data_plotter_2d_y_cut s"
  by (simp_all add: revert_invalid_input_def show_message_def)

lemma update_in_try_matrix:
  assumes "matrix_ready s"
  shows "update_in_try ts s a = update_2d_cuts ts s"
proof -
  from assms obtain d where "data_2d_loaded s = Some d" by (auto elim: matrix_readyE)
  from update_2d_cuts_matrix [OF assms this, of ts] show ?thesis
    by (auto simp: update_in_try_def)
qed

lemma set_2d_cut_indices_inv:
  assumes "navigator_inv s"
  shows "\<exists>s'. set_2d_cut_indices ts s text a = Done s' \<and> navigator_inv s' \<and>
           data_2d_loaded s' = data_2d_loaded s"
proof (cases "data_2d_loaded s")
  case None
  with assms show ?thesis by (simp add: set_2d_cut_indices_def)
next
  case (Some d)
  with assms have m: "matrix_ready s" and b: "cuts_in_bounds s d"
    by (simp_all add: navigator_inv_def)
  have keep: "navigator_inv s'" if "data_2d_loaded s' = Some d" "x_coords_2d s' = x_coords_2d s"
    "y_coords_2d s' = y_coords_2d s" "current_x_cut_idx s' = current_x_cut_idx s"
    "current_y_cut_idx s' = current_y_cut_idx s" for s'
    using that m b Some by (simp add: navigator_inv_def matrix_ready_def cuts_in_bounds_def)
  have upd: "\<exists>s'. update_in_try ts s0 a' = Done s' \<and> navigator_inv s' \<and>
           data_2d_loaded s' = Some d"
    if "data_2d_loaded s0 = Some d" "x_coords_2d s0 = x_coords_2d s"
       "y_coords_2d s0 = y_coords_2d s" for s0 a'
  proof -
    have m0: "matrix_ready s0" using that m Some by (simp add: matrix_ready_def)
    from update_2d_cuts_matrix [OF m0 that(1), of ts] Some show ?thesis
      unfolding update_in_try_matrix [OF m0] by (auto simp: navigator_inv_def)
  qed
  show ?thesis
  proof (cases "text = []")
    case True
    with assms Some show ?thesis by (simp add: set_2d_cut_indices_def)
  next
    case False
    show ?thesis
    proof (cases "py_int text")
      case None
      with False Some show ?thesis
        by (simp add: set_2d_cut_indices_def keep revert_invalid_input_fields)
    next
      case (Some v)
      note v = this
      consider "a = ''y''" | "a \<noteq> ''y''" "a = ''x''" | "a \<noteq> ''y''" "a \<noteq> ''x''" by blast
      then show ?thesis
      proof cases
        case 1
        with False v \<open>data_2d_loaded s = Some d\<close> assms show ?thesis
          by (auto simp: set_2d_cut_indices_def Let_def show_message_def intro!: keep upd)
      next
        case 2
        with False v \<open>data_2d_loaded s = Some d\<close> assms show ?thesis
          by (auto simp: set_2d_cut_indices_def Let_def show_message_def intro!: keep upd)
      next
        case 3
        with False v \<open>data_2d_loaded s = Some d\<close> assms show ?thesis
          by (simp add: set_2d_cut_indices_def)
      qed
    qed
  qed
qed

lemma run_op_inv:
  assumes "navigator_inv s"
  shows "\<exists>s'. run_op ts c s = Done s' \<and> navigator_inv s' \<and> data_2d_loaded s' = data_2d_loaded s"
  using assms
  by (cases c) (simp_all add: set_2d_cut_indices_inv navigate_2d_cut_inv update_2d_cuts_inv)

lemma run_ops_inv:
  assumes "navigator_inv s"
  shows "\<exists>s'. run_ops ts cs s = Done s' \<and> navigator_inv s' \<and> data_2d_loaded s' = data_2d_loaded s"
  using assms
proof (induction cs arbitrary: s)
  case Nil
  then show ?case by simp
next
  case (Cons c cs)
  from run_op_inv [OF Cons.prems, of ts c] obtain s1 where
    s1: "run_op ts c s = Done s1" "navigator_inv s1" "data_2d_loaded s1 = data_2d_loaded s"
    by blast
  from Cons.IH [OF s1(2)] s1 show ?case by auto
qed

lemma demo_window_inv: "navigator_inv demo_window"
  by (simp add: navigator_inv_def demo_window_def init_window2d_def matrix_ready_def
      cuts_in_bounds_def demo_matrix_def rectangular_def shape0_def shape1_def)

lemma init_window2d_inv: "navigator_inv init_window2d"
  by (simp add: navigator_inv_def init_window2d_def py_str_def str_nat.simps digit_chars_def)

text \<open>
  The cursors stay in bounds. From a state in which a matrix is loaded and both cursors
  are in bounds, any sequence of calls of \<^verbatim>\<open>set_2d_cut_indices\<close>,
  \<^verbatim>\<open>navigate_2d_cut\<close> and \<^verbatim>\<open>update_2d_cuts\<close> runs to its end, keeps the matrix and
  leaves the row cursor in \<open>[0, rowCount - 1]\<close> and the column cursor in
  \<open>[0, colCount - 1]\<close>. With no matrix the first two calls change nothing, so fields that
  show \<^verbatim>\<open>0\<close> keep it, and a recompute writes \<^verbatim>\<open>0\<close> into both fields from any state.
\<close>

theorem cut_indices_stay_in_bounds:
  assumes "navigator_inv s"
  shows "(\<exists>s'. run_ops ts cs s = Done s' \<and> data_2d_loaded s' = data_2d_loaded s \<and>
            (case data_2d_loaded s' of
               Some d \<Rightarrow> 0 \<le> current_y_cut_idx s' \<and> current_y_cut_idx s' \<le> int (shape0 d) - 1 \<and>
                         0 \<le> current_x_cut_idx s' \<and> current_x_cut_idx s' \<le> int (shape1 d) - 1
             | None \<Rightarrow> x_cut_index_input s' = ''0'' \<and> y_cut_index_input s' = ''0'')) \<and>
         (data_2d_loaded s0 = None \<longrightarrow>
            (\<exists>s1. update_2d_cuts ts s0 = Done s1 \<and>
                   x_cut_index_input s1 = ''0'' \<and> y_cut_index_input s1 = ''0''))"
proof
  from run_ops_inv [OF assms, of ts cs] obtain s' where
    r: "run_ops ts cs s = Done s'" "navigator_inv s'" "data_2d_loaded s' = data_2d_loaded s"
    by blast
  from r(2) have "case data_2d_loaded s' of
               Some d \<Rightarrow> 0 \<le> current_y_cut_idx s' \<and> current_y_cut_idx s' \<le> int (shape0 d) - 1 \<and>
                         0 \<le> current_x_cut_idx s' \<and> current_x_cut_idx s' \<le> int (shape1 d) - 1
             | None \<Rightarrow> x_cut_index_input s' = ''0'' \<and> y_cut_index_input s' = ''0''"
    by (simp add: navigator_inv_def cuts_in_bounds_def split: option.splits)
  with r show "\<exists>s'. run_ops ts cs s = Done s' \<and> data_2d_loaded s' = data_2d_loaded s \<and>
            (case data_2d_loaded s' of
               Some d \<Rightarrow> 0 \<le> current_y_cut_idx s' \<and> current_y_cut_idx s' \<le> int (shape0 d) - 1 \<and>
                         0 \<le> current_x_cut_idx s' \<and> current_x_cut_idx s' \<le> int (shape1 d) - 1
             | None \<Rightarrow> x_cut_index_input s' = ''0'' \<and> y_cut_index_input s' = ''0'')"
    by blast
next
  show "data_2d_loaded s0 = None \<longrightarrow>
            (\<exists>s1. update_2d_cuts ts s0 = Done s1 \<and>
                   x_cut_index_input s1 = ''0'' \<and> y_cut_index_input s1 = ''0'')"
    using update_2d_cuts_absent [of s0 ts] by blast
qed

lemma py_str_0: "py_str 0 = ''0''"
  by (simp add: py_str_def str_nat.simps digit_chars_def)

theorem cut_indices_stay_in_bounds_witness:
  "navigator_inv demo_window \<and>
   (\<exists>s'. run_ops plain_table
            [Navigate ''x'' 1, SetCut ''9'' ''y'', SetCut ''2'' ''x'', Recompute] demo_window = Done s' \<and>
          data_2d_loaded s' = Some demo_matrix \<and>
          0 \<le> current_y_cut_idx s' \<and> current_y_cut_idx s' \<le> 3 \<and>
          0 \<le> current_x_cut_idx s' \<and> current_x_cut_idx s' \<le> 2) \<and>
   data_2d_loaded init_window2d = None \<and>
   (\<exists>s1. update_2d_cuts plain_table init_window2d = Done s1 \<and>
          x_cut_index_input s1 = ''0'' \<and> y_cut_index_input s1 = ''0'')"
proof -
  have d: "data_2d_loaded demo_window = Some demo_matrix"
    by (simp add: demo_window_def)
  have n: "data_2d_loaded init_window2d = None"
    by (simp add: init_window2d_def)
  have sh: "int (shape0 demo_matrix) - 1 = 3" "int (shape1 demo_matrix) - 1 = 2"
    by (simp_all add: shape0_def shape1_def demo_matrix_def)
  from cut_indices_stay_in_bounds [OF demo_window_inv, of plain_table
      "[Navigate ''x'' 1, SetCut ''9'' ''y'', SetCut ''2'' ''x'', Recompute]" init_window2d]
  show ?thesis
    using demo_window_inv d n sh by auto
qed

subsection \<open>Texts that are rejected or ignored\<close>

lemma set_2d_cut_indices_not_int:
  assumes "data_2d_loaded s = Some d" "text \<noteq> []" "py_int text = None"
  shows "set_2d_cut_indices ts s text a = Done (revert_invalid_input s a)"
  using assms by (simp add: set_2d_cut_indices_def)

lemma set_2d_cut_indices_y_outside:
  assumes "data_2d_loaded s = Some d" "py_int text = Some v"
    and "\<not> (0 \<le> v \<and> v \<le> int (shape0 d) - 1)"
  shows "set_2d_cut_indices ts s text ''y'' =
     Done (show_message Warning ''Invalid Y-Index''
             (''Y-Index must be between 0 and '' @ py_str (int (shape0 d) - 1) @ ''.'')
             (s\<lparr>y_cut_index_input := py_str (current_y_cut_idx s)\<rparr>))"
proof -
  have "text \<noteq> []" using assms(2) by (auto simp: py_int_def strip_def)
  with assms show ?thesis by (auto simp: set_2d_cut_indices_def)
qed

lemma set_2d_cut_indices_x_outside:
  assumes "data_2d_loaded s = Some d" "py_int text = Some v"
    and "\<not> (0 \<le> v \<and> v \<le> int (shape1 d) - 1)"
  shows "set_2d_cut_indices ts s text ''x'' =
     Done (show_message Warning ''Invalid X-Index''
             (''X-Index must be between 0 and '' @ py_str (int (shape1 d) - 1) @ ''.'')
             (s\<lparr>x_cut_index_input := py_str (current_x_cut_idx s)\<rparr>))"
proof -
  have "text \<noteq> []" using assms(2) by (auto simp: py_int_def strip_def)
  with assms show ?thesis by (auto simp: set_2d_cut_indices_def)
qed

lemma set_2d_cut_indices_empty: "set_2d_cut_indices ts s [] a = Done s"
  by (simp add: set_2d_cut_indices_def split: option.splits)

lemma py_int_empty: "py_int [] = None"
  by (simp add: py_int_def strip_def)

text \<open>
  Claim C2, amended. With a matrix loaded, a text that is not empty and is not an integer,
  or is an integer outside the axis' range, leaves both cursors, both plots and both
  listings as they were, writes the current index back into the field and shows one
  warning: \<^verbatim>\<open>Invalid Input\<close> for a text that is no integer, and for an integer out of
  range a warning that names the range.
\<close>

theorem invalid_cut_text_reverts:
  assumes "data_2d_loaded s = Some d" "text \<noteq> []"
  shows "(py_int text = None \<or> (\<exists>v. py_int text = Some v \<and> (v < 0 \<or> int (shape0 d) - 1 < v)) \<longrightarrow>
            (\<exists>s'. set_2d_cut_indices ts s text ''y'' = Done s' \<and> cuts_untouched s s' \<and>
               y_cut_index_input s' = py_str (current_y_cut_idx s) \<and>
               message_boxes s' = message_boxes s @
                 [if py_int text = None
                  then (Warning, ''Invalid Input'', ''Please enter a valid integer.'')
                  else (Warning, ''Invalid Y-Index'',
                        ''Y-Index must be between 0 and '' @ py_str (int (shape0 d) - 1) @ ''.'')])) \<and>
         (py_int text = None \<or> (\<exists>v. py_int text = Some v \<and> (v < 0 \<or> int (shape1 d) - 1 < v)) \<longrightarrow>
            (\<exists>s'. set_2d_cut_indices ts s text ''x'' = Done s' \<and> cuts_untouched s s' \<and>
               x_cut_index_input s' = py_str (current_x_cut_idx s) \<and>
               message_boxes s' = message_boxes s @
                 [if py_int text = None
                  then (Warning, ''Invalid Input'', ''Please enter a valid integer.'')
                  else (Warning, ''Invalid X-Index'',
                        ''X-Index must be between 0 and '' @ py_str (int (shape1 d) - 1) @ ''.'')]))"
proof (intro conjI impI)
  assume "py_int text = None \<or> (\<exists>v. py_int text = Some v \<and> (v < 0 \<or> int (shape0 d) - 1 < v))"
  then show "\<exists>s'. set_2d_cut_indices ts s text ''y'' = Done s' \<and> cuts_untouched s s' \<and>
               y_cut_index_input s' = py_str (current_y_cut_idx s) \<and>
               message_boxes s' = message_boxes s @
                 [if py_int text = None
                  then (Warning, ''Invalid Input'', ''Please enter a valid integer.'')
                  else (Warning, ''Invalid Y-Index'',
                        ''Y-Index must be between 0 and '' @ py_str (int (shape0 d) - 1) @ ''.'')]"
  proof
    assume "py_int text = None"
    with assms show ?thesis
      by (simp add: set_2d_cut_indices_not_int revert_invalid_input_def show_message_def
          cuts_untouched_def)
  next
    assume "\<exists>v. py_int text = Some v \<and> (v < 0 \<or> int (shape0 d) - 1 < v)"
    then obtain v where v: "py_int text = Some v" "\<not> (0 \<le> v \<and> v \<le> int (shape0 d) - 1)"
      by auto
    show ?thesis
      unfolding set_2d_cut_indices_y_outside [OF assms(1) v] using v(1)
      by (simp add: show_message_def cuts_untouched_def)
  qed
next
  assume "py_int text = None \<or> (\<exists>v. py_int text = Some v \<and> (v < 0 \<or> int (shape1 d) - 1 < v))"
  then show "\<exists>s'. set_2d_cut_indices ts s text ''x'' = Done s' \<and> cuts_untouched s s' \<and>
               x_cut_index_input s' = py_str (current_x_cut_idx s) \<and>
               message_boxes s' = message_boxes s @
                 [if py_int text = None
                  then (Warning, ''Invalid Input'', ''Please enter a valid integer.'')
                  else (Warning, ''Invalid X-Index'',
                        ''X-Index must be between 0 and '' @ py_str (int (shape1 d) - 1) @ ''.'')]"
  proof
    assume "py_int text = None"
    with assms show ?thesis
      by (simp add: set_2d_cut_indices_not_int revert_invalid_input_def show_message_def
          cuts_untouched_def)
  next
    assume "\<exists>v. py_int text = Some v \<and> (v < 0 \<or> int (shape1 d) - 1 < v)"
    then obtain v where v: "py_int text = Some v" "\<not> (0 \<le> v \<and> v \<le> int (shape1 d) - 1)"
      by auto
    show ?thesis
      unfolding set_2d_cut_indices_x_outside [OF assms(1) v] using v(1)
      by (simp add: show_message_def cuts_untouched_def)
  qed
qed

lemma demo_window_data: "data_2d_loaded demo_window = Some demo_matrix"
  by (simp add: demo_window_def)

lemma demo_shape: "int (shape0 demo_matrix) - 1 = 3" "int (shape1 demo_matrix) - 1 = 2"
  by (simp_all add: shape0_def shape1_def demo_matrix_def)

lemma py_int_abc: "py_int ''abc'' = None"
  by (simp add: py_int_def strip_def is_space_def digit_val_def)

lemma py_int_7: "py_int ''7'' = Some 7"
  by (simp add: py_int_def strip_def is_space_def digit_val_def)

lemma py_str_digits: "py_str 2 = ''2''" "py_str 3 = ''3''"
  by (simp_all add: py_str_def str_nat.simps digit_chars_def)

theorem invalid_cut_text_reverts_witness:
  "data_2d_loaded demo_window = Some demo_matrix \<and> ''7'' \<noteq> [] \<and>
   py_int ''7'' = Some 7 \<and> int (shape0 demo_matrix) - 1 < 7 \<and> int (shape1 demo_matrix) - 1 < 7 \<and>
   (\<exists>s'. set_2d_cut_indices plain_table demo_window ''7'' ''y'' = Done s' \<and>
          cuts_untouched demo_window s' \<and> y_cut_index_input s' = ''0'' \<and>
          message_boxes s' = [(Warning, ''Invalid Y-Index'', ''Y-Index must be between 0 and 3.'')]) \<and>
   (\<exists>s'. set_2d_cut_indices plain_table demo_window ''7'' ''x'' = Done s' \<and>
          cuts_untouched demo_window s' \<and> x_cut_index_input s' = ''0'' \<and>
          message_boxes s' = [(Warning, ''Invalid X-Index'', ''X-Index must be between 0 and 2.'')])"
proof -
  have ne: "''7'' \<noteq> []" by simp
  have f: "current_y_cut_idx demo_window = 0" "current_x_cut_idx demo_window = 0"
    "message_boxes demo_window = []"
    by (simp_all add: demo_window_def init_window2d_def)
  from invalid_cut_text_reverts [OF demo_window_data ne, of plain_table]
  show ?thesis
    using demo_window_data py_int_7 demo_shape f py_str_0 py_str_digits by auto
qed

text \<open>
  Claim C2 as stated covers every text that is not an integer. The empty text is not an
  integer, and with a matrix loaded (row 2 selected, the field just cleared by the user)
  the handler returns the state it was given: the field is not set back to \<^verbatim>\<open>2\<close> and
  no warning is shown.
\<close>

theorem empty_cut_text_counterexample:
  "data_2d_loaded cleared_field_window = Some demo_matrix \<and> py_int [] = None \<and>
   set_2d_cut_indices plain_table cleared_field_window [] ''y'' = Done cleared_field_window \<and>
   y_cut_index_input cleared_field_window = [] \<and>
   py_str (current_y_cut_idx cleared_field_window) = ''2'' \<and>
   message_boxes cleared_field_window = []"
  by (simp add: set_2d_cut_indices_empty py_int_empty cleared_field_window_def demo_window_def
      init_window2d_def py_str_digits)

text \<open>
  Claim C10. The empty text is not an integer, and for it \<^verbatim>\<open>set_2d_cut_indices\<close>
  returns the state unchanged, whatever the axis and whether or not a matrix is loaded:
  no cursor, field, plot or listing changes and no warning is shown. Every other text
  that is not an integer adds the warning \<^verbatim>\<open>Invalid Input\<close> when a matrix is loaded.
\<close>

theorem empty_cut_text_is_ignored:
  "py_int [] = None \<and> set_2d_cut_indices ts s [] axis_type = Done s \<and>
   (data_2d_loaded s \<noteq> None \<and> text \<noteq> [] \<and> py_int text = None \<longrightarrow>
      (\<exists>s'. set_2d_cut_indices ts s text axis_type = Done s' \<and>
             message_boxes s' =
               message_boxes s @ [(Warning, ''Invalid Input'', ''Please enter a valid integer.'')]))"
  by (auto simp: py_int_empty set_2d_cut_indices_empty set_2d_cut_indices_not_int
      revert_invalid_input_fields)

theorem empty_cut_text_is_ignored_witness:
  "py_int [] = None \<and>
   set_2d_cut_indices plain_table cleared_field_window [] ''y'' = Done cleared_field_window \<and>
   data_2d_loaded cleared_field_window \<noteq> None \<and> ''abc'' \<noteq> [] \<and> py_int ''abc'' = None \<and>
   (\<exists>s'. set_2d_cut_indices plain_table cleared_field_window ''abc'' ''y'' = Done s' \<and>
          message_boxes s' = [(Warning, ''Invalid Input'', ''Please enter a valid integer.'')])"
proof -
  have d: "data_2d_loaded cleared_field_window \<noteq> None" "message_boxes cleared_field_window = []"
    by (simp_all add: cleared_field_window_def demo_window_def init_window2d_def)
  from empty_cut_text_is_ignored [of plain_table cleared_field_window "''y''" "''abc''"]
  show ?thesis using d py_int_abc by auto
qed

subsection \<open>\<^verbatim>\<open>int(str(v))\<close> is \<open>v\<close>\<close>

lemma digit_val_digit: "d < 10 \<Longrightarrow> digit_val (digit_chars ! d) = Some d"
proof -
  assume "d < 10"
  then consider "d = 0" | "d = 1" | "d = 2" | "d = 3" | "d = 4" | "d = 5" | "d = 6"
    | "d = 7" | "d = 8" | "d = 9" by atomize_elim arith
  then show ?thesis
    by cases (simp_all add: digit_val_def digit_chars_def)
qed

lemma digit_plain: "d < 10 \<Longrightarrow> \<not> is_space (digit_chars ! d) \<and> digit_chars ! d \<noteq> CHR ''-'' \<and>
    digit_chars ! d \<noteq> CHR ''+''"
proof -
  assume "d < 10"
  then consider "d = 0" | "d = 1" | "d = 2" | "d = 3" | "d = 4" | "d = 5" | "d = 6"
    | "d = 7" | "d = 8" | "d = 9" by atomize_elim arith
  then show ?thesis
    by cases (simp_all add: is_space_def digit_chars_def)
qed

lemma int_digits_str_nat:
  "int_digits need acc (str_nat n @ cs) =
     int_digits False (acc * 10 ^ length (str_nat n) + n) cs"
proof (induction n arbitrary: need acc cs rule: str_nat.induct)
  case (1 n)
  show ?case
  proof (cases "n < 10")
    case True
    then show ?thesis
      by (simp add: str_nat.simps [of n] digit_val_digit mult.commute)
  next
    case False
    have s: "str_nat n = str_nat (n div 10) @ [digit_chars ! (n mod 10)]"
      using False by (simp add: str_nat.simps [of n])
    have "int_digits need acc (str_nat n @ cs) =
        int_digits need acc (str_nat (n div 10) @ (digit_chars ! (n mod 10)) # cs)"
      by (simp add: s)
    also have "\<dots> = int_digits False (acc * 10 ^ length (str_nat (n div 10)) + n div 10)
                       ((digit_chars ! (n mod 10)) # cs)"
      using False by (simp add: "1.IH")
    also have "\<dots> = int_digits False (acc * 10 ^ length (str_nat n) + n) cs"
      by (simp add: digit_val_digit s algebra_simps)
    finally show ?thesis .
  qed
qed

lemma str_nat_shape: "\<exists>d cs. d < 10 \<and> str_nat n = digit_chars ! d # cs"
proof (induction n rule: str_nat.induct)
  case (1 n)
  show ?case
  proof (cases "n < 10")
    case True
    then show ?thesis by (auto simp: str_nat.simps [of n])
  next
    case False
    with 1 obtain d cs where "d < 10" "str_nat (n div 10) = digit_chars ! d # cs" by auto
    with False show ?thesis by (auto simp: str_nat.simps [of n])
  qed
qed

lemma str_nat_last: "\<exists>d cs. d < 10 \<and> str_nat n = cs @ [digit_chars ! d]"
proof (cases "n < 10")
  case True
  then have "n < 10 \<and> str_nat n = [] @ [digit_chars ! n]"
    by (simp add: str_nat.simps [of n])
  then show ?thesis by blast
next
  case False
  then have "n mod 10 < 10 \<and> str_nat n = str_nat (n div 10) @ [digit_chars ! (n mod 10)]"
    by (simp add: str_nat.simps [of n])
  then show ?thesis by blast
qed

lemma strip_plain:
  assumes "t \<noteq> []" "\<not> is_space (hd t)" "\<not> is_space (last t)"
  shows "strip t = t"
proof -
  have a: "dropWhile is_space t = t" using assms(1,2) by (cases t) simp_all
  have "rev t \<noteq> []" "\<not> is_space (hd (rev t))" using assms by (simp_all add: hd_rev)
  then have b: "dropWhile is_space (rev t) = rev t" by (cases "rev t") simp_all
  show ?thesis by (simp add: strip_def a b)
qed

lemma py_int_str_nat: "py_int (str_nat n) = Some (int n)"
proof -
  obtain d cs where d: "d < 10" "str_nat n = digit_chars ! d # cs"
    using str_nat_shape by blast
  obtain e es where e: "e < 10" "str_nat n = es @ [digit_chars ! e]"
    using str_nat_last by blast
  have st: "strip (str_nat n) = str_nat n"
  proof (rule strip_plain)
    show "str_nat n \<noteq> []" using d by simp
    show "\<not> is_space (hd (str_nat n))" using d digit_plain by simp
    show "\<not> is_space (last (str_nat n))" using e digit_plain by simp
  qed
  have "int_digits True 0 (str_nat n @ []) = Some n"
    by (simp only: int_digits_str_nat) simp
  then have v: "int_digits True 0 (str_nat n) = Some n" by simp
  have "py_int (str_nat n) = map_option int (int_digits True 0 (str_nat n))"
    unfolding py_int_def st using digit_plain [OF d(1)]
    by (simp add: d(2) del: int_digits.simps)
  then show ?thesis by (simp add: v)
qed

lemma py_int_py_str: "py_int (py_str v) = Some v"
proof (cases "v < 0")
  case False
  then show ?thesis by (simp add: py_str_def py_int_str_nat)
next
  case True
  obtain e es where e: "e < 10" "str_nat (nat (- v)) = es @ [digit_chars ! e]"
    using str_nat_last by blast
  have st: "strip (CHR ''-'' # str_nat (nat (- v))) = CHR ''-'' # str_nat (nat (- v))"
  proof (rule strip_plain)
    show "\<not> is_space (hd (CHR ''-'' # str_nat (nat (- v))))" by (simp add: is_space_def)
    show "\<not> is_space (last (CHR ''-'' # str_nat (nat (- v))))"
      using e digit_plain by simp
  qed simp
  have "int_digits True 0 (str_nat (nat (- v)) @ []) = Some (nat (- v))"
    by (simp only: int_digits_str_nat) simp
  then have "int_digits True 0 (str_nat (nat (- v))) = Some (nat (- v))" by simp
  then show ?thesis using True by (simp add: py_str_def py_int_def st del: int_digits.simps)
qed

subsection \<open>Setting a cursor, navigating, loading\<close>


lemma set_2d_cut_indices_changed:
  assumes "matrix_ready s" "data_2d_loaded s = Some d" "py_int text = Some v"
    and "0 \<le> v" "v \<le> int (shape0 d) - 1" "current_y_cut_idx s \<noteq> v"
  shows "set_2d_cut_indices ts s text ''y'' = update_2d_cuts ts (s\<lparr>current_y_cut_idx := v\<rparr>)"
proof -
  have ne: "text \<noteq> []" using assms(3) by (auto simp: py_int_def strip_def)
  have m: "matrix_ready (s\<lparr>current_y_cut_idx := v\<rparr>)"
    using assms(1) by (simp add: matrix_ready_def)
  from ne assms show ?thesis
    by (auto simp: set_2d_cut_indices_def update_in_try_matrix [OF m])
qed


lemma demo_window_ready: "matrix_ready demo_window"
  using demo_window_inv by (simp add: navigator_inv_def demo_window_data)

lemma py_int_2: "py_int ''2'' = Some 2"
  by (simp add: py_int_def strip_def is_space_def digit_val_def)





lemma show_x_cut_keeps:
  assumes "show_x_cut ts d xs ys s = Done s'"
  shows "data_2d_loaded s' = data_2d_loaded s \<and> x_coords_2d s' = x_coords_2d s \<and>
         y_coords_2d s' = y_coords_2d s \<and>
         current_x_cut_idx s' = current_x_cut_idx s \<and>
         current_y_cut_idx s' = current_y_cut_idx s \<and>
         x_cut_index_input s' = x_cut_index_input s \<and>
         y_cut_index_input s' = y_cut_index_input s"
  using assms
  by (auto simp: show_x_cut_def split: sum.splits outcome.splits)

lemma show_y_cut_keeps:
  assumes "show_y_cut ts d xs ys s = Done s'"
  shows "data_2d_loaded s' = data_2d_loaded s \<and> x_coords_2d s' = x_coords_2d s \<and>
         y_coords_2d s' = y_coords_2d s \<and>
         current_x_cut_idx s' = current_x_cut_idx s \<and>
         current_y_cut_idx s' = current_y_cut_idx s \<and>
         x_cut_index_input s' = x_cut_index_input s \<and>
         y_cut_index_input s' = y_cut_index_input s"
  using assms
  by (auto simp: show_y_cut_def split: sum.splits outcome.splits)

lemma update_2d_cuts_from_zero:
  assumes "update_2d_cuts ts s = Done s'" "data_2d_loaded s' \<noteq> None"
    and "current_x_cut_idx s = 0" "current_y_cut_idx s = 0"
  shows "data_2d_loaded s' = data_2d_loaded s \<and>
         current_x_cut_idx s' = 0 \<and> current_y_cut_idx s' = 0 \<and>
         x_cut_index_input s' = ''0'' \<and> y_cut_index_input s' = ''0''"
proof (cases "data_2d_loaded s")
  case None
  with assms show ?thesis by (auto simp: update_2d_cuts_def)
next
  case (Some d)
  show ?thesis
  proof (cases "x_coords_2d s")
    case None
    with Some assms show ?thesis by (auto simp: update_2d_cuts_def)
  next
    case xs: (Some xs)
    show ?thesis
    proof (cases "y_coords_2d s")
      case None
      with Some xs assms show ?thesis by (auto simp: update_2d_cuts_def)
    next
      case ys: (Some ys)
      define s1 where "s1 = s\<lparr>current_y_cut_idx := 0, current_x_cut_idx := 0,
                      y_cut_index_input := ''0'', x_cut_index_input := ''0''\<rparr>"
      have u: "update_2d_cuts ts s =
          (case show_x_cut ts d xs ys s1 of Raised e s2 \<Rightarrow> Raised e s2
           | Done s2 \<Rightarrow> show_y_cut ts d xs ys s2)"
        using Some xs ys assms(3,4)
        by (simp add: update_2d_cuts_def Let_def s1_def py_str_0)
      from assms(1) obtain s2 where x: "show_x_cut ts d xs ys s1 = Done s2"
        and y: "show_y_cut ts d xs ys s2 = Done s'"
        unfolding u by (auto split: outcome.splits)
      from show_x_cut_keeps [OF x] show_y_cut_keeps [OF y] show ?thesis
        by (simp add: s1_def)
    qed
  qed
qed

lemma plot_image_nonempty:
  assumes "xs \<noteq> []" "ys \<noteq> []"
  shows "\<exists>p. plot_image q d xs ys t xl yl cl = Done p"
proof -
  have "\<exists>ext. extent_of xs ys = Inr ext"
    using assms by (cases xs; cases ys) (simp_all add: extent_of_def getitem_def norm_index_def)
  then show ?thesis by (auto simp: plot_image_def)
qed

lemma length_arange: "length (arange n) = n"
  by (simp add: arange_def)

lemma show_loaded_2d_cursors:
  assumes "show_loaded_2d ts s file_path = Done s'" "data_2d_loaded s' \<noteq> None"
  shows "current_x_cut_idx s' = 0 \<and> current_y_cut_idx s' = 0 \<and>
         x_cut_index_input s' = ''0'' \<and> y_cut_index_input s' = ''0''"
proof -
  define s1 where "s1 = s\<lparr>current_x_cut_idx := 0, current_y_cut_idx := 0,
                     x_cut_index_input := py_str 0, y_cut_index_input := py_str 0\<rparr>"
  from assms(1) obtain p where u: "update_2d_cuts ts (s1\<lparr>data_plotter_2d_main := p\<rparr>) = Done s'"
    by (auto simp: show_loaded_2d_def Let_def s1_def split: option.splits outcome.splits)
  from update_2d_cuts_from_zero [OF u assms(2)] show ?thesis
    by (simp add: s1_def)
qed

lemma show_loaded_2d_ready:
  assumes "data_2d_loaded s = Some d" "x_coords_2d s = Some xs" "y_coords_2d s = Some ys"
    and "rectangular d" "0 < shape0 d" "0 < shape1 d"
    and "length xs = shape1 d" "length ys = shape0 d"
  shows "\<exists>s'. show_loaded_2d ts s file_path = Done s' \<and> data_2d_loaded s' = Some d \<and>
           navigator_inv s'"
proof -
  define s1 where "s1 = s\<lparr>current_x_cut_idx := 0, current_y_cut_idx := 0,
                     x_cut_index_input := py_str 0, y_cut_index_input := py_str 0\<rparr>"
  have "xs \<noteq> []" "ys \<noteq> []" using assms by auto
  from plot_image_nonempty [OF this] obtain p where
    p: "plot_image (data_plotter_2d_main s1) d xs ys (basename file_path)
          (plot_2d_xaxis_input s1) (plot_2d_yaxis_input s1) (plot_2d_cbar_input s1) = Done p"
    by blast
  have sl: "show_loaded_2d ts s file_path = update_2d_cuts ts (s1\<lparr>data_plotter_2d_main := p\<rparr>)"
    using assms(1-3) p by (simp add: show_loaded_2d_def Let_def s1_def)
  have m: "matrix_ready (s1\<lparr>data_plotter_2d_main := p\<rparr>)"
    and d: "data_2d_loaded (s1\<lparr>data_plotter_2d_main := p\<rparr>) = Some d"
    using assms by (simp_all add: matrix_ready_def s1_def)
  from update_2d_cuts_matrix [OF m d, of ts] show ?thesis
    unfolding sl by (auto simp: navigator_inv_def)
qed

text \<open>
  Claim C9. A load of a file with a supported extension always returns, and whenever it
  leaves a matrix loaded (the \<^verbatim>\<open>try\<close> block ran to its end) both cursors are 0 and both
  fields show \<^verbatim>\<open>0\<close>, whatever they were before. It does leave the matrix loaded, with
  the navigator's invariant, when pandas delivers a rectangular matrix with at least one
  row and one column, either by the structured reading (with one coordinate per column
  and per row) or by the fallback reading.
\<close>

theorem load_resets_cuts:
  assumes "endswith (lower file_path) ''.csv'' \<or> endswith (lower file_path) ''.txt''"
  shows "\<exists>s'. load_and_plot_2d ts s file_path primary fallback = Done s' \<and>
           (data_2d_loaded s' \<noteq> None \<longrightarrow>
              current_x_cut_idx s' = 0 \<and> current_y_cut_idx s' = 0 \<and>
              x_cut_index_input s' = ''0'' \<and> y_cut_index_input s' = ''0'') \<and>
           (rectangular d \<and> 0 < shape0 d \<and> 0 < shape1 d \<and>
            (primary = Inr (d, xs, ys) \<and> length xs = shape1 d \<and> length ys = shape0 d \<or>
             (\<exists>e. primary = Inl e) \<and> fallback = Inr d) \<longrightarrow>
              data_2d_loaded s' = Some d \<and> navigator_inv s')"
proof -
  define s0 where "s0 = s\<lparr>current_2d_file_path := Some file_path,
                 data_plotter_2d_main := clear_plot (data_plotter_2d_main s),
                 data_plotter_2d_x_cut := clear_plot (data_plotter_2d_x_cut s),
                 data_plotter_2d_y_cut := clear_plot (data_plotter_2d_y_cut s),
                 x_cut_data_display := [], y_cut_data_display := []\<rparr>"
  have l: "load_and_plot_2d ts s file_path primary fallback =
           (case parse_2d s0 file_path primary fallback of
              Raised e s1 \<Rightarrow> Done (load_failed_2d s1 file_path e)
            | Done s1 \<Rightarrow>
               (case show_loaded_2d ts s1 file_path of
                  Raised e s2 \<Rightarrow> Done (load_failed_2d s2 file_path e)
                | Done s2 \<Rightarrow> Done s2))"
    using assms by (simp add: load_and_plot_2d_def Let_def s0_def)
  have failed: "data_2d_loaded (load_failed_2d s1 file_path e) = None" for s1 e
    by (simp add: load_failed_2d_def)
  let ?good = "rectangular d \<and> 0 < shape0 d \<and> 0 < shape1 d \<and>
            (primary = Inr (d, xs, ys) \<and> length xs = shape1 d \<and> length ys = shape0 d \<or>
             (\<exists>e. primary = Inl e) \<and> fallback = Inr d)"
  have good: "\<exists>s1 xs' ys'. parse_2d s0 file_path primary fallback = Done s1 \<and>
      data_2d_loaded s1 = Some d \<and> x_coords_2d s1 = Some xs' \<and> y_coords_2d s1 = Some ys' \<and>
      length xs' = shape1 d \<and> length ys' = shape0 d" if ?good
    using that
    by (auto simp: parse_2d_def Let_def show_message_def length_arange)
  show ?thesis
  proof (cases "parse_2d s0 file_path primary fallback")
    case (Raised e s1)
    with good have "\<not> ?good" by auto
    with Raised show ?thesis unfolding l by (simp add: failed)
  next
    case (Done s1)
    show ?thesis
    proof (cases "show_loaded_2d ts s1 file_path")
      case r: (Raised e s2)
      have "\<not> ?good"
      proof
        assume g: ?good
        from good [OF g] Done obtain xs' ys' where
          "data_2d_loaded s1 = Some d" "x_coords_2d s1 = Some xs'" "y_coords_2d s1 = Some ys'"
          "length xs' = shape1 d" "length ys' = shape0 d" by auto
        from show_loaded_2d_ready [OF this(1-3) _ _ _ this(4,5), of ts file_path] g r
        show False by auto
      qed
      with Done r show ?thesis unfolding l by (simp add: failed)
    next
      case d2: (Done s2)
      have a: "data_2d_loaded s2 \<noteq> None \<longrightarrow>
              current_x_cut_idx s2 = 0 \<and> current_y_cut_idx s2 = 0 \<and>
              x_cut_index_input s2 = ''0'' \<and> y_cut_index_input s2 = ''0''"
        using show_loaded_2d_cursors [OF d2] by blast
      have b: "data_2d_loaded s2 = Some d \<and> navigator_inv s2" if g: ?good
      proof -
        from good [OF g] Done obtain xs' ys' where
          "data_2d_loaded s1 = Some d" "x_coords_2d s1 = Some xs'" "y_coords_2d s1 = Some ys'"
          "length xs' = shape1 d" "length ys' = shape0 d" by auto
        from show_loaded_2d_ready [OF this(1-3) _ _ _ this(4,5), of ts file_path] g d2
        show ?thesis by auto
      qed
      from Done d2 a b show ?thesis unfolding l by simp
    qed
  qed
qed

lemma csv_name: "endswith (lower ''run/Map.CSV'') ''.csv''"
  by (simp add: endswith_def lower_def lower_char_def)

lemma demo_matrix_shape: "rectangular demo_matrix" "0 < shape0 demo_matrix" "0 < shape1 demo_matrix"
  "shape0 demo_matrix = 4" "shape1 demo_matrix = 3"
  by (simp_all add: demo_matrix_def rectangular_def shape0_def shape1_def)

theorem load_resets_cuts_witness:
  "endswith (lower ''run/Map.CSV'') ''.csv'' \<and> current_y_cut_idx last_row_window = 3 \<and>
   y_cut_index_input last_row_window = ''3'' \<and>
   rectangular demo_matrix \<and> 0 < shape0 demo_matrix \<and> 0 < shape1 demo_matrix \<and>
   length [Fin 1, Fin 2, Fin 3] = shape1 demo_matrix \<and>
   length [Fin 10, Fin 20, Fin 30, Fin 40] = shape0 demo_matrix \<and>
   (\<exists>s'. load_and_plot_2d plain_table last_row_window ''run/Map.CSV''
            (Inr (demo_matrix, [Fin 1, Fin 2, Fin 3], [Fin 10, Fin 20, Fin 30, Fin 40]))
            (Inl (OtherError [])) = Done s' \<and>
          data_2d_loaded s' = Some demo_matrix \<and>
          current_x_cut_idx s' = 0 \<and> current_y_cut_idx s' = 0 \<and>
          x_cut_index_input s' = ''0'' \<and> y_cut_index_input s' = ''0'')"
proof -
  have f: "current_y_cut_idx last_row_window = 3" "y_cut_index_input last_row_window = ''3''"
    by (simp_all add: last_row_window_def)
  from load_resets_cuts [of "''run/Map.CSV''" plain_table last_row_window
      "Inr (demo_matrix, [Fin 1, Fin 2, Fin 3], [Fin 10, Fin 20, Fin 30, Fin 40])"
      "Inl (OtherError [])" demo_matrix "[Fin 1, Fin 2, Fin 3]"
      "[Fin 10, Fin 20, Fin 30, Fin 40]"]
  show ?thesis
    using csv_name f demo_matrix_shape by auto
qed

subsection \<open>A load that fails\<close>

lemma load_and_plot_2d_both_fail:
  assumes "endswith (lower file_path) ''.csv'' \<or> endswith (lower file_path) ''.txt''"
  shows "\<exists>s'. load_and_plot_2d ts s file_path (Inl e1) (Inl e2) = Done s' \<and>
           data_2d_loaded s' = None \<and>
           current_x_cut_idx s' = current_x_cut_idx s \<and>
           current_y_cut_idx s' = current_y_cut_idx s \<and>
           x_cut_index_input s' = x_cut_index_input s \<and>
           y_cut_index_input s' = y_cut_index_input s"
  using assms
  by (simp add: load_and_plot_2d_def parse_2d_def load_failed_2d_def show_message_def Let_def)

lemma select_root_folder_2d_resets:
  "data_2d_loaded (select_root_folder_2d s) = None \<and>
   x_cut_index_input (select_root_folder_2d s) = ''0'' \<and>
   y_cut_index_input (select_root_folder_2d s) = ''0'' \<and>
   navigator_inv (select_root_folder_2d s)"
  by (simp add: select_root_folder_2d_def navigator_inv_def py_str_0)

lemma cut_calls_without_matrix:
  assumes "data_2d_loaded s = None"
  shows "set_2d_cut_indices ts s t a = Done s" "navigate_2d_cut ts s c d = Done s"
  using assms by (simp_all add: set_2d_cut_indices_def navigate_2d_cut_def)

lemma py_int_3: "py_int ''3'' = Some 3"
  by (simp add: py_int_def strip_def is_space_def digit_val_def)

lemma broken_name: "endswith (lower ''run/broken.csv'') ''.csv'' \<or>
    endswith (lower ''run/broken.csv'') ''.txt''"
  by (simp add: endswith_def lower_def lower_char_def)

text \<open>
  Claim C1, at the input where the code departs from it. The claim has the cursors in
  range while a matrix is loaded, which holds (\<open>run_ops_inv\<close>), and both fields showing
  \<^verbatim>\<open>0\<close> when none is loaded. With the example matrix loaded the row cursor is set to 3;
  then a file is chosen that pandas cannot read in either way. The \<^verbatim>\<open>except\<close> branch
  of \<^verbatim>\<open>_load_and_plot_2d\<close> unloads the matrix and clears plots and listings, but it
  writes neither cursor nor field, as \<^verbatim>\<open>select_root_folder\<close> does
  (\<open>select_root_folder_2d_resets\<close>): no matrix is loaded
  and the Y-index field shows \<^verbatim>\<open>3\<close>. Navigation and edits of the field return at once
  and leave it so.
\<close>

theorem failed_load_keeps_cut_fields:
  "\<exists>s1 s2. set_2d_cut_indices plain_table demo_window ''3'' ''y'' = Done s1 \<and>
      data_2d_loaded s1 = Some demo_matrix \<and>
      current_y_cut_idx s1 = 3 \<and> y_cut_index_input s1 = ''3'' \<and>
      load_and_plot_2d plain_table s1 ''run/broken.csv''
        (Inl (OtherError ''No columns to parse from file''))
        (Inl (OtherError ''No columns to parse from file'')) = Done s2 \<and>
      data_2d_loaded s2 = None \<and>
      current_y_cut_idx s2 = 3 \<and> y_cut_index_input s2 = ''3'' \<and>
      run_ops plain_table [Navigate ''x'' (- 1), SetCut ''1'' ''y'', Navigate ''y'' 1] s2 = Done s2 \<and>
      y_cut_index_input s2 \<noteq> ''0''"
proof -
  have f: "current_y_cut_idx demo_window = 0"
    by (simp add: demo_window_def init_window2d_def)
  have b: "(0::int) \<le> 3" "3 \<le> int (shape0 demo_matrix) - 1" "current_y_cut_idx demo_window \<noteq> 3"
    by (simp_all add: demo_shape f)
  define s0 where "s0 = demo_window\<lparr>current_y_cut_idx := 3\<rparr>"
  have m0: "matrix_ready s0" and d0: "data_2d_loaded s0 = Some demo_matrix"
    using demo_window_ready demo_window_data by (simp_all add: matrix_ready_def s0_def)
  have first: "set_2d_cut_indices plain_table demo_window ''3'' ''y'' = update_2d_cuts plain_table s0"
    unfolding s0_def
    by (rule set_2d_cut_indices_changed [OF demo_window_ready demo_window_data py_int_3 b])
  from update_2d_cuts_matrix [OF m0 d0, of plain_table] obtain s1 where
    s1: "update_2d_cuts plain_table s0 = Done s1" "data_2d_loaded s1 = Some demo_matrix"
      "current_y_cut_idx s1 = max 0 (min (current_y_cut_idx s0) (int (shape0 demo_matrix) - 1))"
      "y_cut_index_input s1 = py_str (current_y_cut_idx s1)"
    by blast
  have y1: "current_y_cut_idx s1 = 3" "y_cut_index_input s1 = ''3''"
    using s1(3,4) by (simp_all add: s0_def demo_shape py_str_digits)
  from load_and_plot_2d_both_fail [OF broken_name, of plain_table s1
      "OtherError ''No columns to parse from file''" "OtherError ''No columns to parse from file''"]
  obtain s2 where s2: "load_and_plot_2d plain_table s1 ''run/broken.csv''
        (Inl (OtherError ''No columns to parse from file''))
        (Inl (OtherError ''No columns to parse from file'')) = Done s2"
      "data_2d_loaded s2 = None" "current_y_cut_idx s2 = current_y_cut_idx s1"
      "y_cut_index_input s2 = y_cut_index_input s1"
    by blast
  have ops: "run_ops plain_table [Navigate ''x'' (- 1), SetCut ''1'' ''y'', Navigate ''y'' 1] s2 = Done s2"
    by (simp add: cut_calls_without_matrix [OF s2(2)])
  from first s1(1,2) y1 s2 ops show ?thesis by auto
qed

subsection \<open>What a recompute shows\<close>

lemma frame_of_dict2_distinct:
  "k1 \<noteq> k2 \<Longrightarrow> frame_of_dict2 k1 a k2 b = [(k1, a), (k2, b)]"
  by (simp add: frame_of_dict2_def)

text \<open>
  What a recompute shows, for a loaded matrix with both cursors in bounds: the X-cut plot
  holds one line with the x coordinates as abscissa and the row \<open>data[rowCutIndex, :]\<close>
  as ordinate, the Y-cut plot one line with the y coordinates and the column
  \<open>data[:, colCutIndex]\<close>; each title ends with the fixed coordinate formatted by
  \<^verbatim>\<open>:.2f\<close>; and each listing is that coordinate followed by the two-column table of
  coordinates and values, provided the axis label differs from the colour-bar label.
\<close>

lemma recompute_shows_slices:
  assumes "navigator_inv s" "data_2d_loaded s = Some d"
    and "x_coords_2d s = Some xs" "y_coords_2d s = Some ys"
  shows "\<exists>s'. update_2d_cuts ts s = Done s' \<and>
     ax (data_plotter_2d_x_cut s') =
       Some (one_line_axes xs (cells d ! nat (current_y_cut_idx s)) ''X-Cut Data''
               (''X-Cut at Y-coord '' @ fmt2f (ys ! nat (current_y_cut_idx s)))
               (plot_2d_xaxis_input s) (plot_2d_cbar_input s)) \<and>
     ax (data_plotter_2d_y_cut s') =
       Some (one_line_axes ys (map (\<lambda>r. r ! nat (current_x_cut_idx s)) (cells d)) ''Y-Cut Data''
               (''Y-Cut at X-coord '' @ fmt2f (xs ! nat (current_x_cut_idx s)))
               (plot_2d_yaxis_input s) (plot_2d_cbar_input s)) \<and>
     (plot_2d_xaxis_input s \<noteq> plot_2d_cbar_input s \<longrightarrow>
        x_cut_data_display s' =
          ''Y-Coordinate: '' @ fmt2f (ys ! nat (current_y_cut_idx s)) @ [CHR 0x0A] @
          ts [(plot_2d_xaxis_input s, xs),
              (plot_2d_cbar_input s, cells d ! nat (current_y_cut_idx s))]) \<and>
     (plot_2d_yaxis_input s \<noteq> plot_2d_cbar_input s \<longrightarrow>
        y_cut_data_display s' =
          ''X-Coordinate: '' @ fmt2f (xs ! nat (current_x_cut_idx s)) @ [CHR 0x0A] @
          ts [(plot_2d_yaxis_input s, ys),
              (plot_2d_cbar_input s, map (\<lambda>r. r ! nat (current_x_cut_idx s)) (cells d))])"
proof -
  from assms have m: "matrix_ready s" and b: "cuts_in_bounds s d"
    by (simp_all add: navigator_inv_def)
  from m assms(2-4) have r: "rectangular d" "0 < shape0 d" "0 < shape1 d"
    "length xs = shape1 d" "length ys = shape0 d"
    by (auto elim: matrix_readyE)
  have c: "max 0 (min (current_y_cut_idx s) (int (shape0 d) - 1)) = current_y_cut_idx s"
    "max 0 (min (current_x_cut_idx s) (int (shape1 d) - 1)) = current_x_cut_idx s"
    using b by (auto simp: cuts_in_bounds_def)
  show ?thesis
    unfolding update_2d_cuts_ready [OF assms(2-4) r] c
    by (simp add: slices_shown_def frame_of_dict2_distinct)
qed

lemma fmt2f_30: "fmt2f (Fin 30) = ''30.00''"
  by (simp add: fmt2f_def round_half_even_def str_nat.simps digit_chars_def)

lemma clash_window_inv: "navigator_inv clash_window"
  by (simp add: clash_window_def navigator_inv_def demo_window_def init_window2d_def
      matrix_ready_def cuts_in_bounds_def demo_matrix_def rectangular_def shape0_def shape1_def)

text \<open>
  Claim C6, at the input where the code departs from it. The example matrix of the
  specification is loaded, row 2 is selected, and the user has typed the same text
  \<^verbatim>\<open>Value\<close> into the x-axis label and the colour-bar label. The X-cut plot is as the
  claim says (x coordinates against row 2, title ending in \<^verbatim>\<open>30.00\<close>), but the listing
  under \<^verbatim>\<open>Y-Coordinate: 30.00\<close> is a table of one column, the values: the dictionary
  handed to \<^verbatim>\<open>pd.DataFrame\<close> has one key, and the x coordinates are gone.
\<close>

theorem x_cut_listing_loses_coordinates:
  "plot_2d_xaxis_input clash_window = plot_2d_cbar_input clash_window \<and>
   current_y_cut_idx clash_window = 2 \<and>
   (\<exists>s'. update_2d_cuts plain_table clash_window = Done s' \<and>
      ax (data_plotter_2d_x_cut s') =
        Some (one_line_axes [Fin 1, Fin 2, Fin 3] [Fin 7, Fin 8, Fin 9] ''X-Cut Data''
                ''X-Cut at Y-coord 30.00'' ''Value'' ''Value'') \<and>
      x_cut_data_display s' =
        ''Y-Coordinate: 30.00'' @ [CHR 0x0A] @ plain_table [(''Value'', [Fin 7, Fin 8, Fin 9])])"
proof -
  have f: "data_2d_loaded clash_window = Some demo_matrix"
    "x_coords_2d clash_window = Some [Fin 1, Fin 2, Fin 3]"
    "y_coords_2d clash_window = Some [Fin 10, Fin 20, Fin 30, Fin 40]"
    by (simp_all add: clash_window_def demo_window_def)
  have l: "length [Fin 1, Fin 2, Fin 3] = shape1 demo_matrix"
    "length [Fin 10, Fin 20, Fin 30, Fin 40] = shape0 demo_matrix"
    by (simp_all add: demo_matrix_shape)
  have i: "current_y_cut_idx clash_window = 2" "current_x_cut_idx clash_window = 0"
    "plot_2d_xaxis_input clash_window = ''Value''" "plot_2d_cbar_input clash_window = ''Value''"
    by (simp_all add: clash_window_def demo_window_def init_window2d_def)
  have c: "max 0 (min (current_y_cut_idx clash_window) (int (shape0 demo_matrix) - 1)) = 2"
    "max 0 (min (current_x_cut_idx clash_window) (int (shape1 demo_matrix) - 1)) = 0"
    by (simp_all add: i demo_matrix_shape)
  have row: "cells demo_matrix ! 2 = [Fin 7, Fin 8, Fin 9]"
    by (simp add: demo_matrix_def)
  show ?thesis
    unfolding update_2d_cuts_ready [OF f demo_matrix_shape(1-3) l] c
    by (simp add: i row slices_shown_def frame_of_dict2_def fmt2f_30 del: plain_table.simps)
qed

section \<open>Properties of the 1D tab\<close>

lemma resolve_series_plottable:
  assumes "plottable df w"
  shows "\<exists>xc yc. resolve_series df i w = Inr (series_of df w, xc, yc)"
  using assms
  by (auto simp: plottable_def resolve_series_def series_of_def numeric_rows_def Let_def
      column_header_def split: option.splits)

lemma resolve_series_skipped:
  assumes "\<not> plottable df w"
  shows "\<exists>title text. resolve_series df i w = Inl (Warning, title, text)"
  using assms
  by (auto simp: plottable_def resolve_series_def numeric_rows_def Let_def out_of_bounds_msg_def
      split: option.splits)

lemma skip_reports_plottable:
  "skip_reports df i (w # ws) =
     (if plottable df w then [] else (case resolve_series df i w of Inl m \<Rightarrow> [m] | Inr r \<Rightarrow> [])) @
     skip_reports df (Suc i) ws"
  using resolve_series_plottable [of df w i] by auto

lemma series_loop_closed:
  "\<exists>D. series_loop df i ws (S, D0, M) =
        (S @ map (series_of df) (filter (plottable df) ws), D, M @ skip_reports df i ws)"
proof (induction ws arbitrary: i S D0 M)
  case Nil
  then show ?case by simp
next
  case (Cons w ws)
  show ?case
  proof (cases "plottable df w")
    case True
    from resolve_series_plottable [OF True, of i] obtain xc yc where
      r: "resolve_series df i w = Inr (series_of df w, xc, yc)" by blast
    from Cons.IH [of "Suc i" "S @ [series_of df w]" "set_if_absent (set_if_absent D0 xc) yc" M]
    show ?thesis using True r by simp
  next
    case False
    from resolve_series_skipped [OF False, of i] obtain title msg where
      r: "resolve_series df i w = Inl (Warning, title, msg)" by blast
    from Cons.IH [of "Suc i" S D0 "M @ [(Warning, title, msg)]"]
    show ?thesis using False r by simp
  qed
qed

lemma skip_reports_count:
  "length (skip_reports df i ws) = length (filter (\<lambda>w. \<not> plottable df w) ws) \<and>
   list_all (\<lambda>m. fst m = Warning) (skip_reports df i ws)"
proof (induction ws arbitrary: i)
  case Nil
  then show ?case by simp
next
  case (Cons w ws)
  show ?case
  proof (cases "plottable df w")
    case True
    from resolve_series_plottable [OF True, of i] Cons.IH [of "Suc i"] True
    show ?thesis by auto
  next
    case False
    from resolve_series_skipped [OF False, of i] Cons.IH [of "Suc i"] False
    show ?thesis by auto
  qed
qed

lemma series_of_lengths: "length (x_data (series_of df w)) = length (y_data (series_of df w))"
  by (simp add: series_of_def split: option.splits)

lemma plot_series_closed:
  assumes "list_all (\<lambda>sd. length (x_data sd) = length (y_data sd)) sds"
  shows "fst (plot_series i sds a) = None \<and>
         ax_lines (snd (plot_series i sds a)) =
           ax_lines a @ map (\<lambda>(k, sd). line_of k sd) (zip [i..<i + length sds] sds) \<and>
         ax_image (snd (plot_series i sds a)) = ax_image a"
  using assms
proof (induction sds arbitrary: i a)
  case Nil
  then show ?case by simp
next
  case (Cons sd sds)
  have z: "zip [i..<i + length (sd # sds)] (sd # sds) =
           (i, sd) # zip [Suc i..<Suc i + length sds] sds"
    by (simp add: upt_rec)
  from Cons.prems have e: "length (x_data sd) = length (y_data sd)"
    and r: "list_all (\<lambda>sd. length (x_data sd) = length (y_data sd)) sds"
    by simp_all
  show ?case
    unfolding z using e Cons.IH [OF r]
    by (simp add: Let_def line_of_def)
qed

lemma update_1d_result:
  assumes "current_1d_df s = Some df"
  shows "\<exists>s'. update_1d_plot_from_column_selection ts s = Done s' \<and>
     series_input_widgets s' = series_input_widgets s \<and> current_1d_df s' = Some df \<and>
     message_boxes_1d s' =
       message_boxes_1d s @ skip_reports df 0 (series_input_widgets s) @
       (if filter (plottable df) (series_input_widgets s) = [] then [no_series_msg] else []) \<and>
     draw_count (data_plotter_1d s') = draw_count (data_plotter_1d s) + 1 \<and>
     (if filter (plottable df) (series_input_widgets s) = []
      then ax (data_plotter_1d s') = None \<and> data_1d_display s' = []
      else (\<exists>a. ax (data_plotter_1d s') = Some a \<and>
              ax_lines a = map (\<lambda>(k, sd). line_of k sd)
                 (zip [0..<length (filter (plottable df) (series_input_widgets s))]
                      (map (series_of df) (filter (plottable df) (series_input_widgets s)))) \<and>
              ax_title a = plot_1d_title_input s \<and> ax_xlabel a = plot_1d_xaxis_input s \<and>
              ax_ylabel a = plot_1d_yaxis1_input s))"
proof -
  define kept where "kept = filter (plottable df) (series_input_widgets s)"
  define sds where "sds = map (series_of df) kept"
  obtain D where loop: "series_loop df 0 (series_input_widgets s) ([], [], []) =
      (sds, D, skip_reports df 0 (series_input_widgets s))"
    using series_loop_closed [of df 0 "series_input_widgets s" "[]" "[]" "[]"]
    by (auto simp: sds_def kept_def)
  show ?thesis
  proof (cases "kept = []")
    case True
    then have "sds = []" by (simp add: sds_def)
    with assms loop True show ?thesis
      unfolding kept_def [symmetric]
      by (simp add: update_1d_plot_from_column_selection_def show_message_1d_def clear_plot_def
          no_series_msg_def)
  next
    case False
    then have ne: "sds \<noteq> []" by (simp add: sds_def)
    have eq: "list_all (\<lambda>sd. length (x_data sd) = length (y_data sd)) sds"
      by (simp add: sds_def list_all_iff series_of_lengths)
    from plot_series_closed [OF eq, of 0 new_axes]
    obtain a where a: "plot_series 0 sds new_axes = (None, a)"
      "ax_lines a = map (\<lambda>(k, sd). line_of k sd) (zip [0..<length sds] sds)"
      by (cases "plot_series 0 sds new_axes") (auto simp: new_axes_def)
    have len: "length sds = length kept" by (simp add: sds_def)
    from assms loop False ne a show ?thesis
      unfolding kept_def [symmetric] sds_def [symmetric]
      by (simp add: update_1d_plot_from_column_selection_def plot_line_def len)
  qed
qed

lemma add_plot_series_input_loaded:
  assumes "current_1d_df s = Some df"
  shows "\<exists>s'. add_plot_series_input ts s x y t = Done s' \<and> current_1d_df s' = Some df \<and>
           series_input_widgets s' = series_input_widgets s @
             [\<lparr>x_input = py_str x, y_input = py_str y, twinx_checkbox = t\<rparr>]"
proof -
  define s1 where "s1 = s\<lparr>series_input_widgets := series_input_widgets s @
                    [\<lparr>x_input = py_str x, y_input = py_str y, twinx_checkbox = t\<rparr>]\<rparr>"
  have d: "current_1d_df s1 = Some df" using assms by (simp add: s1_def)
  have "add_plot_series_input ts s x y t = update_1d_plot_from_column_selection ts s1"
    using assms by (simp add: add_plot_series_input_def Let_def s1_def)
  with update_1d_result [OF d, of ts] show ?thesis
    by (auto simp: s1_def)
qed

lemma default_series_1d_result:
  assumes "current_1d_df s = Some df" "0 < length df"
  shows "\<exists>s'. default_series_1d ts s df = Done s' \<and> current_1d_df s' = Some df \<and>
           series_input_widgets s' =
             (if 2 \<le> length df then [\<lparr>x_input = ''0'', y_input = ''1'', twinx_checkbox = False\<rparr>]
              else []) @
             (if 4 \<le> length df then [\<lparr>x_input = ''0'', y_input = ''3'', twinx_checkbox = True\<rparr>]
              else []) @
             (if length df < 2 then [\<lparr>x_input = ''0'', y_input = ''0'', twinx_checkbox = False\<rparr>]
              else [])"
proof -
  have s13: "py_str 1 = ''1''" "py_str 3 = ''3''"
    by (simp_all add: py_str_def str_nat.simps digit_chars_def)
  define c where "c = clear_all_1d_series_inputs s"
  have c: "current_1d_df c = Some df" "series_input_widgets c = []"
    using assms by (simp_all add: c_def clear_all_1d_series_inputs_def)
  have "\<exists>s1. (if 2 \<le> length df then add_plot_series_input ts c 0 1 False else Done c)
       = Done s1 \<and> current_1d_df s1 = Some df \<and>
     series_input_widgets s1 =
        (if 2 \<le> length df then [\<lparr>x_input = ''0'', y_input = ''1'', twinx_checkbox = False\<rparr>]
         else [])"
    using add_plot_series_input_loaded [OF c(1), of ts 0 1 False] c
    by (cases "2 \<le> length df") (auto simp: py_str_0 s13)
  then obtain s1 where s1: "(if 2 \<le> length df then add_plot_series_input ts c 0 1 False else Done c)
       = Done s1" "current_1d_df s1 = Some df"
     "series_input_widgets s1 =
        (if 2 \<le> length df then [\<lparr>x_input = ''0'', y_input = ''1'', twinx_checkbox = False\<rparr>]
         else [])"
    by blast
  have "\<exists>s2. (if 4 \<le> length df then add_plot_series_input ts s1 0 3 True else Done s1)
       = Done s2 \<and> current_1d_df s2 = Some df \<and>
     series_input_widgets s2 = series_input_widgets s1 @
        (if 4 \<le> length df then [\<lparr>x_input = ''0'', y_input = ''3'', twinx_checkbox = True\<rparr>]
         else [])"
    using add_plot_series_input_loaded [OF s1(2), of ts 0 3 True] s1(2)
    by (cases "4 \<le> length df") (auto simp: py_str_0 s13)
  then obtain s2 where s2: "(if 4 \<le> length df then add_plot_series_input ts s1 0 3 True else Done s1)
       = Done s2" "current_1d_df s2 = Some df"
     "series_input_widgets s2 = series_input_widgets s1 @
        (if 4 \<le> length df then [\<lparr>x_input = ''0'', y_input = ''3'', twinx_checkbox = True\<rparr>]
         else [])"
    by blast
  have e: "series_input_widgets s2 = [] \<longleftrightarrow> length df < 2"
    using s1(3) s2(3) by auto
  have "\<exists>s3. (if series_input_widgets s2 = [] \<and> 0 < length df
                 then add_plot_series_input ts s2 0 0 False
                 else if series_input_widgets s2 = []
                 then add_plot_series_input ts s2 0 0 False
                 else Done s2) = Done s3 \<and> current_1d_df s3 = Some df \<and>
     series_input_widgets s3 = series_input_widgets s2 @
        (if length df < 2 then [\<lparr>x_input = ''0'', y_input = ''0'', twinx_checkbox = False\<rparr>]
         else [])"
    using add_plot_series_input_loaded [OF s2(2), of ts 0 0 False] s2(2) assms(2)
    unfolding e by (cases "length df < 2") (auto simp: py_str_0)
  then obtain s3 where s3: "(if series_input_widgets s2 = [] \<and> 0 < length df
                 then add_plot_series_input ts s2 0 0 False
                 else if series_input_widgets s2 = []
                 then add_plot_series_input ts s2 0 0 False
                 else Done s2) = Done s3" "current_1d_df s3 = Some df"
     "series_input_widgets s3 = series_input_widgets s2 @
        (if length df < 2 then [\<lparr>x_input = ''0'', y_input = ''0'', twinx_checkbox = False\<rparr>]
         else [])"
    by blast
  obtain s4 where s4: "update_1d_plot_from_column_selection ts s3 = Done s4"
    "current_1d_df s4 = Some df" "series_input_widgets s4 = series_input_widgets s3"
    using update_1d_result [OF s3(2), of ts] by blast
  have "default_series_1d ts s df = Done s4"
    unfolding default_series_1d_def c_def [symmetric]
    by (simp only: s1(1) s2(1) s3(1) s4(1) and_then_def outcome.case)
  with s1 s2 s3 s4 show ?thesis by simp
qed

text \<open>
  Claim C5, amended. When the file reads as a table that is not empty (so that the table
  is stored), \<^verbatim>\<open>_load_and_plot_1d\<close> returns with the old series rows gone and these rows
  in their place: the row \<^verbatim>\<open>(0, 1, unchecked)\<close> if there are at least two columns, then
  the row \<^verbatim>\<open>(0, 3, checked)\<close> if there are at least four, and the single row
  \<^verbatim>\<open>(0, 0, unchecked)\<close> if neither applied and there is a column. Two columns give
  exactly the first row, five columns exactly the first two.
\<close>

theorem load_creates_default_series:
  assumes "\<not> df_empty df"
  shows "\<exists>s'. load_and_plot_1d ts s file_path (Inr df) = Done s' \<and> current_1d_df s' = Some df \<and>
     series_input_widgets s' =
       (if 2 \<le> length df then [\<lparr>x_input = ''0'', y_input = ''1'', twinx_checkbox = False\<rparr>]
        else []) @
       (if 4 \<le> length df then [\<lparr>x_input = ''0'', y_input = ''3'', twinx_checkbox = True\<rparr>]
        else []) @
       (if \<not> 2 \<le> length df \<and> \<not> 4 \<le> length df \<and> 1 \<le> length df
        then [\<lparr>x_input = ''0'', y_input = ''0'', twinx_checkbox = False\<rparr>] else []) \<and>
     (length df = 2 \<longrightarrow>
        series_input_widgets s' = [\<lparr>x_input = ''0'', y_input = ''1'', twinx_checkbox = False\<rparr>]) \<and>
     (length df = 5 \<longrightarrow>
        series_input_widgets s' = [\<lparr>x_input = ''0'', y_input = ''1'', twinx_checkbox = False\<rparr>,
                                   \<lparr>x_input = ''0'', y_input = ''3'', twinx_checkbox = True\<rparr>])"
proof -
  define s0 where "s0 = s\<lparr>current_1d_file_path := Some file_path,
                 data_plotter_1d := clear_plot (data_plotter_1d s),
                 data_1d_display := [], current_1d_df := None\<rparr>"
  from assms have pos: "0 < length df" by (cases df) (simp_all add: df_empty_def)
  have l: "load_and_plot_1d ts s file_path (Inr df) =
           (case default_series_1d ts (s0\<lparr>current_1d_df := Some df\<rparr>) df of
              Raised e s1 \<Rightarrow> Done (load_failed_1d s1 file_path e)
            | Done s1 \<Rightarrow> Done s1)"
    using assms by (simp add: load_and_plot_1d_def Let_def s0_def)
  have d: "current_1d_df (s0\<lparr>current_1d_df := Some df\<rparr>) = Some df" by simp
  from default_series_1d_result [OF d pos, of ts] pos show ?thesis
    unfolding l by (auto simp: Suc_le_eq)
qed

lemma demo_table_not_empty: "\<not> df_empty demo_table"
  by (simp add: df_empty_def demo_table_def)

theorem load_creates_default_series_witness:
  "\<not> df_empty demo_table \<and>
   series_input_widgets mixed_series_window \<noteq>
     [\<lparr>x_input = ''0'', y_input = ''1'', twinx_checkbox = False\<rparr>] \<and>
   (\<exists>s'. load_and_plot_1d plain_table mixed_series_window ''runs/scan.txt'' (Inr demo_table) = Done s' \<and>
          current_1d_df s' = Some demo_table \<and>
          series_input_widgets s' = [\<lparr>x_input = ''0'', y_input = ''1'', twinx_checkbox = False\<rparr>])"
proof -
  have n: "series_input_widgets mixed_series_window \<noteq>
     [\<lparr>x_input = ''0'', y_input = ''1'', twinx_checkbox = False\<rparr>]"
    by (simp add: mixed_series_window_def)
  have len: "length demo_table = 3" by (simp add: demo_table_def)
  from load_creates_default_series [OF demo_table_not_empty, of plain_table mixed_series_window
      "''runs/scan.txt''"]
  show ?thesis using demo_table_not_empty n len by auto
qed

text \<open>
  Claim C7. With a table loaded, a recompute always returns. Every series row that is
  not plottable (a text that is no integer, an index outside \<open>[0, columnCount)\<close>, or no
  row left that is numeric in both columns) is reported by one warning box and skipped;
  the plottable rows are all drawn, in their order, each with its numeric rows, its label
  and its axis flag. If no row is plottable, the plot and the listing are cleared and the
  box \<^verbatim>\<open>No Plottable Series\<close> is shown after the warnings.
\<close>

theorem skipped_series_leave_the_others:
  assumes "current_1d_df s = Some df"
  shows "\<exists>s'. update_1d_plot_from_column_selection ts s = Done s' \<and>
     message_boxes_1d s' =
       message_boxes_1d s @ skip_reports df 0 (series_input_widgets s) @
       (if filter (plottable df) (series_input_widgets s) = [] then [no_series_msg] else []) \<and>
     length (skip_reports df 0 (series_input_widgets s)) =
       length (filter (\<lambda>w. \<not> plottable df w) (series_input_widgets s)) \<and>
     list_all (\<lambda>m. fst m = Warning) (skip_reports df 0 (series_input_widgets s)) \<and>
     (if filter (plottable df) (series_input_widgets s) = []
      then ax (data_plotter_1d s') = None \<and> data_1d_display s' = []
      else (\<exists>a. ax (data_plotter_1d s') = Some a \<and>
              map (\<lambda>l. (ln_x l, ln_y l, ln_label l, ln_twinx l)) (ax_lines a) =
              map (\<lambda>w. (x_data (series_of df w), y_data (series_of df w),
                          label (series_of df w), use_twinx (series_of df w)))
                  (filter (plottable df) (series_input_widgets s))))"
proof -
  define kept where "kept = filter (plottable df) (series_input_widgets s)"
  have m: "map (\<lambda>l. (ln_x l, ln_y l, ln_label l, ln_twinx l))
             (map (\<lambda>(k, sd). line_of k sd) (zip [0..<length kept] (map (series_of df) kept))) =
           map (\<lambda>w. (x_data (series_of df w), y_data (series_of df w),
                          label (series_of df w), use_twinx (series_of df w))) kept"
    by (rule nth_equalityI) (simp_all add: line_of_def)
  from update_1d_result [OF assms, of ts] skip_reports_count [of df 0 "series_input_widgets s"] m
  show ?thesis
    unfolding kept_def by (auto split: if_splits)
qed

text \<open>
  Claim C8, amended. The colour of a drawn series is given by its position among the
  series that are drawn: the \<open>k\<close>-th plottable row gets \<open>colors[k % 9]\<close>. A skipped row
  takes no colour.
\<close>

theorem colors_follow_surviving_position:
  assumes "current_1d_df s = Some df"
    and "k < length (filter (plottable df) (series_input_widgets s))"
  shows "\<exists>s' a. update_1d_plot_from_column_selection ts s = Done s' \<and>
     ax (data_plotter_1d s') = Some a \<and>
     length (ax_lines a) = length (filter (plottable df) (series_input_widgets s)) \<and>
     ax_lines a ! k = line_of k (series_of df (filter (plottable df) (series_input_widgets s) ! k)) \<and>
     ln_color (ax_lines a ! k) = colors ! (k mod 9)"
proof -
  define kept where "kept = filter (plottable df) (series_input_widgets s)"
  have ne: "kept \<noteq> []" using assms(2) by (auto simp: kept_def)
  have n: "map (\<lambda>(k, sd). line_of k sd) (zip [0..<length kept] (map (series_of df) kept)) ! k =
           line_of k (series_of df (kept ! k))"
    using assms(2) by (simp add: kept_def)
  have c: "ln_color (line_of k sd) = colors ! (k mod 9)" for sd
    by (simp add: line_of_def colors_def)
  from update_1d_result [OF assms(1), of ts] ne n c show ?thesis
    unfolding kept_def by auto
qed

lemma py_int_small: "py_int ''0'' = Some 0" "py_int ''1'' = Some 1" "py_int ''3'' = Some 3"
  "py_int ''x'' = None"
  by (simp_all add: py_int_def strip_def is_space_def digit_val_def)

lemma mixed_window_fields:
  "current_1d_df mixed_series_window = Some demo_table"
  "message_boxes_1d mixed_series_window = []"
  "series_input_widgets mixed_series_window =
     [\<lparr>x_input = ''0'', y_input = ''3'', twinx_checkbox = False\<rparr>,
      \<lparr>x_input = ''0'', y_input = ''1'', twinx_checkbox = False\<rparr>,
      \<lparr>x_input = ''x'', y_input = ''1'', twinx_checkbox = False\<rparr>,
      \<lparr>x_input = ''0'', y_input = ''2'', twinx_checkbox = True\<rparr>,
      \<lparr>x_input = ''1'', y_input = ''0'', twinx_checkbox = True\<rparr>]"
  by (simp_all add: mixed_series_window_def init_window1d_def)

lemma mixed_rows:
  "resolve_series demo_table 0 \<lparr>x_input = ''0'', y_input = ''3'', twinx_checkbox = False\<rparr> =
     Inl (Warning, ''Column Index Out of Bounds'',
          ''Series 1: Y Column Index 3 is out of bounds. Max index is 2.'')"
  "resolve_series demo_table 2 \<lparr>x_input = ''x'', y_input = ''1'', twinx_checkbox = False\<rparr> =
     Inl (Warning, ''Invalid Column Index'',
          ''Series 3: Please enter valid integer numbers for column indices.'')"
  "resolve_series demo_table 3 \<lparr>x_input = ''0'', y_input = ''2'', twinx_checkbox = True\<rparr> =
     Inl (Warning, ''No Plottable Data'',
          ''Series 4: No valid numeric data points found for the selected columns to plot.'')"
  by (simp_all add: resolve_series_def py_int_small py_int_2 demo_table_def out_of_bounds_msg_def
      series_name_def py_str_def str_nat.simps digit_chars_def isnan_def Let_def)

lemma mixed_plottable:
  "\<not> plottable demo_table \<lparr>x_input = ''0'', y_input = ''3'', twinx_checkbox = False\<rparr>"
  "plottable demo_table \<lparr>x_input = ''0'', y_input = ''1'', twinx_checkbox = False\<rparr>"
  "\<not> plottable demo_table \<lparr>x_input = ''x'', y_input = ''1'', twinx_checkbox = False\<rparr>"
  "\<not> plottable demo_table \<lparr>x_input = ''0'', y_input = ''2'', twinx_checkbox = True\<rparr>"
  "plottable demo_table \<lparr>x_input = ''1'', y_input = ''0'', twinx_checkbox = True\<rparr>"
  by (simp_all add: plottable_def py_int_small py_int_2 demo_table_def numeric_rows_def isnan_def)

lemma mixed_series:
  "series_of demo_table \<lparr>x_input = ''0'', y_input = ''1'', twinx_checkbox = False\<rparr> =
     \<lparr>x_data = [Fin 0, Fin 2], y_data = [Fin 5, Fin 7], label = ''(t vs v)'', use_twinx = False\<rparr>"
  "series_of demo_table \<lparr>x_input = ''1'', y_input = ''0'', twinx_checkbox = True\<rparr> =
     \<lparr>x_data = [Fin 5, Fin 7], y_data = [Fin 0, Fin 2], label = ''(v vs t)'', use_twinx = True\<rparr>"
  by (simp_all add: series_of_def py_int_small demo_table_def numeric_rows_def isnan_def)

lemma mixed_reports:
  "skip_reports demo_table 0 (series_input_widgets mixed_series_window) =
     [(Warning, ''Column Index Out of Bounds'',
       ''Series 1: Y Column Index 3 is out of bounds. Max index is 2.''),
      (Warning, ''Invalid Column Index'',
       ''Series 3: Please enter valid integer numbers for column indices.''),
      (Warning, ''No Plottable Data'',
       ''Series 4: No valid numeric data points found for the selected columns to plot.'')]"
proof -
  obtain r1 where r1: "resolve_series demo_table (Suc 0)
      \<lparr>x_input = ''0'', y_input = ''1'', twinx_checkbox = False\<rparr> = Inr r1"
    using resolve_series_plottable [OF mixed_plottable(2), of "Suc 0"] by auto
  obtain r4 where r4: "resolve_series demo_table (Suc (Suc (Suc (Suc 0))))
      \<lparr>x_input = ''1'', y_input = ''0'', twinx_checkbox = True\<rparr> = Inr r4"
    using resolve_series_plottable [OF mixed_plottable(5), of "Suc (Suc (Suc (Suc 0)))"] by auto
  have r2: "resolve_series demo_table (Suc (Suc 0))
      \<lparr>x_input = ''x'', y_input = ''1'', twinx_checkbox = False\<rparr> =
     Inl (Warning, ''Invalid Column Index'',
          ''Series 3: Please enter valid integer numbers for column indices.'')"
    using mixed_rows(2) by (simp add: numeral_2_eq_2)
  have r3: "resolve_series demo_table (Suc (Suc (Suc 0)))
      \<lparr>x_input = ''0'', y_input = ''2'', twinx_checkbox = True\<rparr> =
     Inl (Warning, ''No Plottable Data'',
          ''Series 4: No valid numeric data points found for the selected columns to plot.'')"
    using mixed_rows(3) by (simp add: numeral_3_eq_3)
  show ?thesis
    by (simp only: mixed_window_fields skip_reports.simps r1 r2 r3 r4 mixed_rows(1) sum.case
        append.simps)
qed

lemma mixed_kept:
  "filter (plottable demo_table) (series_input_widgets mixed_series_window) =
     [\<lparr>x_input = ''0'', y_input = ''1'', twinx_checkbox = False\<rparr>,
      \<lparr>x_input = ''1'', y_input = ''0'', twinx_checkbox = True\<rparr>]"
  by (simp add: mixed_window_fields mixed_plottable)

theorem skipped_series_leave_the_others_witness:
  "current_1d_df mixed_series_window = Some demo_table \<and>
   (\<exists>s' a. update_1d_plot_from_column_selection plain_table mixed_series_window = Done s' \<and>
      message_boxes_1d s' =
        [(Warning, ''Column Index Out of Bounds'',
          ''Series 1: Y Column Index 3 is out of bounds. Max index is 2.''),
         (Warning, ''Invalid Column Index'',
          ''Series 3: Please enter valid integer numbers for column indices.''),
         (Warning, ''No Plottable Data'',
          ''Series 4: No valid numeric data points found for the selected columns to plot.'')] \<and>
      ax (data_plotter_1d s') = Some a \<and>
      map (\<lambda>l. (ln_x l, ln_y l, ln_label l, ln_twinx l)) (ax_lines a) =
        [([Fin 0, Fin 2], [Fin 5, Fin 7], ''(t vs v)'', False),
         ([Fin 5, Fin 7], [Fin 0, Fin 2], ''(v vs t)'', True)])"
  using skipped_series_leave_the_others [OF mixed_window_fields(1), of plain_table]
  by (auto simp: mixed_window_fields(1,2) mixed_reports mixed_kept mixed_series)

theorem colors_follow_surviving_position_witness:
  "current_1d_df mixed_series_window = Some demo_table \<and>
   1 < length (filter (plottable demo_table) (series_input_widgets mixed_series_window)) \<and>
   (\<exists>s' a. update_1d_plot_from_column_selection plain_table mixed_series_window = Done s' \<and>
      ax (data_plotter_1d s') = Some a \<and> length (ax_lines a) = 2 \<and>
      ln_label (ax_lines a ! 1) = ''(v vs t)'' \<and> ln_color (ax_lines a ! 1) = ''g'')"
proof -
  have k: "1 < length (filter (plottable demo_table) (series_input_widgets mixed_series_window))"
    by (simp add: mixed_kept)
  have c: "colors ! (1 mod 9) = ''g''" by (simp add: colors_def)
  from colors_follow_surviving_position [OF mixed_window_fields(1) k, of plain_table]
  show ?thesis
    using k c by (auto simp: mixed_window_fields(1) mixed_kept mixed_series line_of_def)
qed

text \<open>
  Claim C8 as stated gives a series the colour of its position in the original list. In
  the example window the rows at positions 0, 2 and 3 are skipped; the row at position 4
  is drawn as the second line, in \<^verbatim>\<open>g\<close>, while its position in the original list stands
  for \<^verbatim>\<open>m\<close>.
\<close>

theorem color_by_original_position_counterexample:
  "series_input_widgets mixed_series_window ! 4 =
     \<lparr>x_input = ''1'', y_input = ''0'', twinx_checkbox = True\<rparr> \<and>
   plottable demo_table (series_input_widgets mixed_series_window ! 4) \<and>
   label (series_of demo_table (series_input_widgets mixed_series_window ! 4)) = ''(v vs t)'' \<and>
   plotted (update_1d_plot_from_column_selection plain_table mixed_series_window) =
     [(''(t vs v)'', ''b''), (''(v vs t)'', ''g'')] \<and>
   colors ! (4 mod length colors) = ''m''"
proof -
  from update_1d_result [OF mixed_window_fields(1), of plain_table]
  obtain s' a where r: "update_1d_plot_from_column_selection plain_table mixed_series_window = Done s'"
    "ax (data_plotter_1d s') = Some a"
    "ax_lines a = map (\<lambda>(k, sd). line_of k sd)
       (zip [0..<length (filter (plottable demo_table) (series_input_widgets mixed_series_window))]
            (map (series_of demo_table)
               (filter (plottable demo_table) (series_input_widgets mixed_series_window))))"
    by (auto simp: mixed_kept)
  have u: "[0..<2] = [0, 1]" by (simp add: upt_rec)
  have p: "plotted (update_1d_plot_from_column_selection plain_table mixed_series_window) =
     [(''(t vs v)'', ''b''), (''(v vs t)'', ''g'')]"
    unfolding r(1) by (simp add: plotted_def r(2,3) mixed_kept mixed_series u line_of_def colors_def)
  show ?thesis
    by (simp add: p mixed_window_fields(3) mixed_plottable mixed_series colors_def)
qed

text \<open>
  Claim C5 as stated covers every table. A table of two columns and no row is turned away
  by the \<^verbatim>\<open>df.empty\<close> guard (lines 932 to 935) before the series rows are cleared: the
  five rows of the example window are all still there, and the default row for two
  columns is not created.
\<close>

theorem empty_table_keeps_old_series:
  "df_empty header_only_table \<and> length header_only_table = 2 \<and>
   rows_after (load_and_plot_1d plain_table mixed_series_window ''runs/header.csv''
                 (Inr header_only_table)) = series_input_widgets mixed_series_window \<and>
   length (series_input_widgets mixed_series_window) = 5 \<and>
   series_input_widgets mixed_series_window \<noteq>
     [\<lparr>x_input = ''0'', y_input = ''1'', twinx_checkbox = False\<rparr>]"
  by (simp add: df_empty_def header_only_table_def rows_after_def load_and_plot_1d_def
      show_message_1d_def mixed_window_fields Let_def)

end
